theory Spec2Isabelle
  imports Complex_Main "HOL-Library.AList"
begin

section \<open>Python values and the library operations the server uses\<close>

text \<open>
  The server (\<^verbatim>\<open>src/server.py\<close>) handles two kinds of dynamically typed data: the
  \<^verbatim>\<open>arguments\<close> of a tool call and the documents \<^verbatim>\<open>response.json()\<close> returns. Both are
  JSON values, and the records the server builds from them are JSON values again (they are
  handed to \<^verbatim>\<open>json.dumps\<close>). A Python \<^verbatim>\<open>dict\<close> is an association list in insertion order
  (keys are unique in a parsed document; lookup takes the first entry), a Python \<^verbatim>\<open>str\<close> is
  a \<open>string\<close> (one \<open>char\<close> per code point below 256), an \<^verbatim>\<open>int\<close> is an unbounded \<open>int\<close>,
  and a \<^verbatim>\<open>float\<close> is the real value of the parsed double.
\<close>

datatype json =
    JNull
  | JBool bool
  | JInt int
  | JFloat real
  | JStr string
  | JArr "json list"
  | JObj "(string \<times> json) list"

text \<open>
  The exceptions the code can raise. \<open>KeyError k\<close>: a dict has no key \<open>k\<close>, where \<open>k\<close> is a
  string or, when a dict is sliced, the slice object \<^verbatim>\<open>slice(None, stop, None)\<close>.
  \<open>AttributeError t a\<close>: a value of type \<open>t\<close> has no method \<open>a\<close> (\<^verbatim>\<open>None.get\<close>, \<^verbatim>\<open>5.split\<close>).
  \<open>TypeError\<close>: a value that is not iterable, not a container, not subscriptable, not
  hashable, or not a slice index. \<open>UpstreamError m\<close>: anything \<^verbatim>\<open>client.get\<close>,
  \<^verbatim>\<open>raise_for_status\<close> or \<^verbatim>\<open>response.json\<close> raises, with \<open>m\<close> its message.
\<close>

datatype dict_key = StrKey string | SliceKey json

datatype py_error =
    KeyError dict_key
  | IndexError
  | AttributeError string string
  | TypeError
  | UpstreamError string

text \<open>
  Library behaviour that is not modelled, or that depends on the interpreter, is a
  parameter: the \<^verbatim>\<open>repr\<close> of floats, lists and dicts (met when an f-string formats such a
  value) and of strings (met when a slice object is printed), \<^verbatim>\<open>json.dumps(v, indent=2)\<close> of
  a value that is not a string, the message of a \<^verbatim>\<open>TypeError\<close>, and whether slice objects are
  hashable (they are from CPython 3.12 on, and were not before).
\<close>

record pylib =
  repr_of :: "json \<Rightarrow> string"
  dumps_of :: "json \<Rightarrow> string"
  type_error_str :: "py_error \<Rightarrow> string"
  slices_hashable :: bool

definition bind :: "py_error + 'a \<Rightarrow> ('a \<Rightarrow> py_error + 'b) \<Rightarrow> py_error + 'b" where
  "bind m f = (case m of Inl e \<Rightarrow> Inl e | Inr v \<Rightarrow> f v)"

fun type_name :: "json \<Rightarrow> string" where
  "type_name JNull = ''NoneType''"
| "type_name (JBool _) = ''bool''"
| "type_name (JInt _) = ''int''"
| "type_name (JFloat _) = ''float''"
| "type_name (JStr _) = ''str''"
| "type_name (JArr _) = ''list''"
| "type_name (JObj _) = ''dict''"

text \<open>\<^verbatim>\<open>d.get(k, default)\<close>: only a dict has the method.\<close>

fun py_get :: "json \<Rightarrow> string \<Rightarrow> json \<Rightarrow> py_error + json" where
  "py_get (JObj kvs) k dflt = (case map_of kvs k of Some v \<Rightarrow> Inr v | None \<Rightarrow> Inr dflt)"
| "py_get v k dflt = Inl (AttributeError (type_name v) ''get'')"

text \<open>\<^verbatim>\<open>d[k]\<close> with a string key \<open>k\<close>: a missing key of a dict is a \<^verbatim>\<open>KeyError\<close>; a list or a
  string takes integer indices only, and nothing else is subscriptable.\<close>

fun py_getitem :: "json \<Rightarrow> string \<Rightarrow> py_error + json" where
  "py_getitem (JObj kvs) k = (case map_of kvs k of Some v \<Rightarrow> Inr v | None \<Rightarrow> Inl (KeyError (StrKey k)))"
| "py_getitem v k = Inl TypeError"

fun is_prefix :: "string \<Rightarrow> string \<Rightarrow> bool" where
  "is_prefix [] ys = True"
| "is_prefix (x # xs) [] = False"
| "is_prefix (x # xs) (y # ys) = (x = y \<and> is_prefix xs ys)"

text \<open>\<^verbatim>\<open>sub in s\<close> on strings: \<open>sub\<close> occurs in \<open>s\<close> as a contiguous run.\<close>

fun is_substring :: "string \<Rightarrow> string \<Rightarrow> bool" where
  "is_substring sub [] = (sub = [])"
| "is_substring sub (y # ys) = (is_prefix sub (y # ys) \<or> is_substring sub ys)"

text \<open>\<^verbatim>\<open>k in v\<close> with a string \<open>k\<close>: key membership for a dict, element membership for a
  list, substring test for a string; any other value is a \<^verbatim>\<open>TypeError\<close>.\<close>

fun py_contains :: "string \<Rightarrow> json \<Rightarrow> py_error + bool" where
  "py_contains k (JObj kvs) = Inr (map_of kvs k \<noteq> None)"
| "py_contains k (JArr xs) = Inr (JStr k \<in> set xs)"
| "py_contains k (JStr s) = Inr (is_substring k s)"
| "py_contains k v = Inl TypeError"

text \<open>\<^verbatim>\<open>for x in v\<close>: a list yields its elements, a string its characters (as strings of
  length one), a dict its keys; any other value is a \<^verbatim>\<open>TypeError\<close>.\<close>

fun py_iter :: "json \<Rightarrow> py_error + json list" where
  "py_iter (JArr xs) = Inr xs"
| "py_iter (JStr s) = Inr (map (\<lambda>c. JStr [c]) s)"
| "py_iter (JObj kvs) = Inr (map (\<lambda>kv. JStr (fst kv)) kvs)"
| "py_iter v = Inl TypeError"

text \<open>The stop index of a slice \<^verbatim>\<open>xs[:stop]\<close>: \<^verbatim>\<open>None\<close> or an integer (a \<^verbatim>\<open>bool\<close> is an
  integer in Python); anything else is a \<^verbatim>\<open>TypeError\<close>.\<close>

fun slice_stop :: "json \<Rightarrow> py_error + int option" where
  "slice_stop JNull = Inr None"
| "slice_stop (JInt n) = Inr (Some n)"
| "slice_stop (JBool b) = Inr (Some (if b then 1 else 0))"
| "slice_stop v = Inl TypeError"

text \<open>A negative stop counts from the end, and a stop out of range is clamped.\<close>

definition slice_upto :: "int option \<Rightarrow> 'a list \<Rightarrow> 'a list" where
  "slice_upto stop xs =
     (case stop of
        None \<Rightarrow> xs
      | Some n \<Rightarrow> if 0 \<le> n then take (nat n) xs else take (nat (int (length xs) + n)) xs)"

text \<open>Lists and dicts are not hashable; every other JSON value is.\<close>

fun hashable :: "json \<Rightarrow> bool" where
  "hashable (JArr xs) = False"
| "hashable (JObj kvs) = False"
| "hashable v = True"

text \<open>\<^verbatim>\<open>v[:stop]\<close>: lists and strings are sliced. A dict is subscripted with the slice
  object as the key: where slice objects are hashable (CPython 3.12 and later) and \<open>stop\<close>
  is, that is a \<^verbatim>\<open>KeyError\<close> of the slice, since no key of a parsed document is a slice;
  otherwise the key cannot be hashed, a \<^verbatim>\<open>TypeError\<close>.\<close>

fun py_slice :: "pylib \<Rightarrow> json \<Rightarrow> json \<Rightarrow> py_error + json" where
  "py_slice L (JArr xs) stop = bind (slice_stop stop) (\<lambda>n. Inr (JArr (slice_upto n xs)))"
| "py_slice L (JStr s) stop = bind (slice_stop stop) (\<lambda>n. Inr (JStr (slice_upto n s)))"
| "py_slice L (JObj kvs) stop =
     (if slices_hashable L \<and> hashable stop then Inl (KeyError (SliceKey stop)) else Inl TypeError)"
| "py_slice L v stop = Inl TypeError"

text \<open>Truthiness, as \<^verbatim>\<open>if v:\<close> reads it.\<close>

fun truthy :: "json \<Rightarrow> bool" where
  "truthy JNull = False"
| "truthy (JBool b) = b"
| "truthy (JInt n) = (n \<noteq> 0)"
| "truthy (JFloat r) = (r \<noteq> 0)"
| "truthy (JStr s) = (s \<noteq> [])"
| "truthy (JArr xs) = (xs \<noteq> [])"
| "truthy (JObj kvs) = (kvs \<noteq> [])"

text \<open>Decimal digits of a natural number, and \<^verbatim>\<open>str\<close> of an integer.\<close>

fun digits :: "nat \<Rightarrow> string" where
  "digits n = (if n < 10 then [char_of (48 + n)] else digits (n div 10) @ [char_of (48 + n mod 10)])"

declare digits.simps [simp del]

definition int_str :: "int \<Rightarrow> string" where
  "int_str i = (if i < 0 then CHR ''-'' # digits (nat (- i)) else digits (nat i))"

text \<open>What an f-string puts for \<^verbatim>\<open>{v}\<close>: \<^verbatim>\<open>str(v)\<close>.\<close>

fun py_str :: "pylib \<Rightarrow> json \<Rightarrow> string" where
  "py_str L (JStr s) = s"
| "py_str L JNull = ''None''"
| "py_str L (JBool b) = (if b then ''True'' else ''False'')"
| "py_str L (JInt i) = int_str i"
| "py_str L v = repr_of L v"

text \<open>\<^verbatim>\<open>s.split(c)\<close> with a one-character separator: never empty.\<close>

fun split_on :: "char \<Rightarrow> string \<Rightarrow> string list" where
  "split_on c [] = [[]]"
| "split_on c (x # xs) =
     (if x = c then [] # split_on c xs
      else (case split_on c xs of [] \<Rightarrow> [[x]] | w # ws \<Rightarrow> (x # w) # ws))"

text \<open>\<^verbatim>\<open>xs[-1]\<close> and \<^verbatim>\<open>xs[0]\<close> on a list: an \<^verbatim>\<open>IndexError\<close> when it is empty.\<close>

definition py_last :: "'a list \<Rightarrow> py_error + 'a" where
  "py_last xs = (case rev xs of [] \<Rightarrow> Inl IndexError | x # _ \<Rightarrow> Inr x)"

definition py_first :: "'a list \<Rightarrow> py_error + 'a" where
  "py_first xs = (case xs of [] \<Rightarrow> Inl IndexError | x # _ \<Rightarrow> Inr x)"

text \<open>A \<^verbatim>\<open>for\<close> loop that appends one record per element: the first exception ends it.\<close>

fun for_each :: "('a \<Rightarrow> py_error + 'b) \<Rightarrow> 'a list \<Rightarrow> py_error + 'b list" where
  "for_each f [] = Inr []"
| "for_each f (x # xs) = bind (f x) (\<lambda>y. bind (for_each f xs) (\<lambda>ys. Inr (y # ys)))"

text \<open>\<^verbatim>\<open>d.update(e)\<close>: a key of \<open>d\<close> keeps its place and takes the new value, a new key is
  appended.\<close>

definition dict_update :: "(string \<times> json) list \<Rightarrow> (string \<times> json) list \<Rightarrow> (string \<times> json) list" where
  "dict_update d e = fold (\<lambda>kv acc. AList.update (fst kv) (snd kv) acc) e d"

text \<open>\<^verbatim>\<open>d.update(v)\<close> with the record another method returned.\<close>

fun py_update :: "(string \<times> json) list \<Rightarrow> json \<Rightarrow> py_error + json" where
  "py_update d (JObj e) = Inr (JObj (dict_update d e))"
| "py_update d v = Inl TypeError"

text \<open>\<^verbatim>\<open>json.dumps\<close> of a string (with the default \<^verbatim>\<open>ensure_ascii\<close>): the string in double
  quotes, with the quote, the backslash and every character outside the printable ASCII
  range escaped.\<close>

definition hex_digit :: "nat \<Rightarrow> char" where
  "hex_digit n = (if n < 10 then char_of (48 + n) else char_of (87 + n))"

definition escape_char :: "char \<Rightarrow> string" where
  "escape_char c =
     (if c = CHR 0x22 then [CHR 0x5C, CHR 0x22]
      else if c = CHR 0x5C then [CHR 0x5C, CHR 0x5C]
      else if c = CHR 0x0A then [CHR 0x5C, CHR ''n'']
      else if c = CHR 0x0D then [CHR 0x5C, CHR ''r'']
      else if c = CHR 0x09 then [CHR 0x5C, CHR ''t'']
      else if c = CHR 0x08 then [CHR 0x5C, CHR ''b'']
      else if c = CHR 0x0C then [CHR 0x5C, CHR ''f'']
      else if 32 \<le> (of_char c :: nat) \<and> (of_char c :: nat) \<le> 126 then [c]
      else [CHR 0x5C, CHR ''u'', CHR ''0'', CHR ''0'',
            hex_digit ((of_char c :: nat) div 16), hex_digit ((of_char c :: nat) mod 16)])"

fun json_dumps :: "pylib \<Rightarrow> json \<Rightarrow> string" where
  "json_dumps L (JStr s) = CHR 0x22 # concat (map escape_char s) @ [CHR 0x22]"
| "json_dumps L v = dumps_of L v"

text \<open>\<^verbatim>\<open>repr(v)\<close>: as \<^verbatim>\<open>str(v)\<close>, but for a string, whose \<^verbatim>\<open>repr\<close> is quoted and escaped.\<close>

fun py_repr :: "pylib \<Rightarrow> json \<Rightarrow> string" where
  "py_repr L (JStr s) = repr_of L (JStr s)"
| "py_repr L v = py_str L v"

text \<open>\<^verbatim>\<open>str(e)\<close> of a caught exception. A \<^verbatim>\<open>KeyError\<close> prints the \<^verbatim>\<open>repr\<close> of its key; the
  strings the code subscripts with are literals without quotes or escapes, so that is the
  key in single quotes.\<close>

fun exc_str :: "pylib \<Rightarrow> py_error \<Rightarrow> string" where
  "exc_str L (KeyError (StrKey k)) = [CHR 0x27] @ k @ [CHR 0x27]"
| "exc_str L (KeyError (SliceKey stop)) = ''slice(None, '' @ py_repr L stop @ '', None)''"
| "exc_str L IndexError = ''list index out of range''"
| "exc_str L (AttributeError t a) =
     [CHR 0x27] @ t @ [CHR 0x27] @ '' object has no attribute '' @ [CHR 0x27] @ a @ [CHR 0x27]"
| "exc_str L (UpstreamError m) = m"
| "exc_str L e = type_error_str L e"

section \<open>The server\<close>

subsection \<open>The tool catalog\<close>

record tool =
  name :: string
  description :: string
  inputSchema :: json

text \<open>\<^verbatim>\<open>LinkedInMCPServer.list_tools\<close> (lines 27 to 126): a list literal; it reads nothing of
  the server.\<close>

definition list_tools :: "tool list" where
  "list_tools =
    [\<lparr>name = ''get_my_profile'',
      description = ''Get your LinkedIn profile information including name, headline, summary, experience, education, and skills'',
      inputSchema = JObj [(''type'', JStr ''object''), (''properties'', JObj []), (''required'', JArr [])]\<rparr>,
     \<lparr>name = ''get_profile_by_url'',
      description = ''Get information from any LinkedIn profile by its URL (e.g., linkedin.com/in/username)'',
      inputSchema = JObj [(''type'', JStr ''object''),
        (''properties'', JObj
          [(''profile_url'', JObj [(''type'', JStr ''string''),
             (''description'', JStr (''Full LinkedIn profile URL or username (e.g., '' @ [CHR 0x27] @ ''linkedin.com/in/johndoe'' @ [CHR 0x27] @ '' or '' @ [CHR 0x27] @ ''johndoe'' @ [CHR 0x27] @ '')''))])]),
        (''required'', JArr [JStr ''profile_url''])]\<rparr>,
     \<lparr>name = ''search_profiles'',
      description = ''Search for LinkedIn profiles by name, title, company, or keywords'',
      inputSchema = JObj [(''type'', JStr ''object''),
        (''properties'', JObj
          [(''query'', JObj [(''type'', JStr ''string''),
             (''description'', JStr ''Search query (name, job title, company, keywords)'')]),
           (''limit'', JObj [(''type'', JStr ''number''),
             (''description'', JStr ''Number of results to return (default: 10)''),
             (''default'', JInt 10)])]),
        (''required'', JArr [JStr ''query''])]\<rparr>,
     \<lparr>name = ''search_jobs'',
      description = ''Search for job postings on LinkedIn'',
      inputSchema = JObj [(''type'', JStr ''object''),
        (''properties'', JObj
          [(''keywords'', JObj [(''type'', JStr ''string''),
             (''description'', JStr (''Job search keywords (e.g., '' @ [CHR 0x27] @ ''software engineer'' @ [CHR 0x27] @ '', '' @ [CHR 0x27] @ ''data analyst'' @ [CHR 0x27] @ '')''))]),
           (''location'', JObj [(''type'', JStr ''string''),
             (''description'', JStr (''Location for job search (e.g., '' @ [CHR 0x27] @ ''San Francisco'' @ [CHR 0x27] @ '', '' @ [CHR 0x27] @ ''Remote'' @ [CHR 0x27] @ '')'')),
             (''default'', JStr [])]),
           (''limit'', JObj [(''type'', JStr ''number''),
             (''description'', JStr ''Number of results (default: 10)''),
             (''default'', JInt 10)])]),
        (''required'', JArr [JStr ''keywords''])]\<rparr>,
     \<lparr>name = ''get_my_connections'',
      description = ''Get a list of your LinkedIn connections'',
      inputSchema = JObj [(''type'', JStr ''object''),
        (''properties'', JObj
          [(''limit'', JObj [(''type'', JStr ''number''),
             (''description'', JStr ''Number of connections to retrieve (default: 20)''),
             (''default'', JInt 20)])]),
        (''required'', JArr [])]\<rparr>,
     \<lparr>name = ''get_feed'',
      description = ''Get recent posts from your LinkedIn feed'',
      inputSchema = JObj [(''type'', JStr ''object''),
        (''properties'', JObj
          [(''limit'', JObj [(''type'', JStr ''number''),
             (''description'', JStr ''Number of posts to retrieve (default: 10)''),
             (''default'', JInt 10)])]),
        (''required'', JArr [])]\<rparr>]"

text \<open>Reading a schema: the fields of an object, the declared type of every parameter of a
  tool, and the names of its required parameters.\<close>

fun obj_fields :: "json \<Rightarrow> (string \<times> json) list" where
  "obj_fields (JObj kvs) = kvs"
| "obj_fields v = []"

definition field :: "string \<Rightarrow> json \<Rightarrow> json option" where
  "field k v = map_of (obj_fields v) k"

definition param_types :: "tool \<Rightarrow> json option list" where
  "param_types t =
     (case field ''properties'' (inputSchema t) of
        None \<Rightarrow> []
      | Some ps \<Rightarrow> map (\<lambda>kv. field ''type'' (snd kv)) (obj_fields ps))"

fun str_items :: "json \<Rightarrow> string list" where
  "str_items (JArr xs) = concat (map (\<lambda>x. case x of JStr s \<Rightarrow> [s] | _ \<Rightarrow> []) xs)"
| "str_items v = []"

definition required_params :: "tool \<Rightarrow> string list" where
  "required_params t = (case field ''required'' (inputSchema t) of None \<Rightarrow> [] | Some r \<Rightarrow> str_items r)"

subsection \<open>The server object, the HTTP client and the upstream service\<close>

text \<open>
  \<open>li_at_cookie\<close> is what \<^verbatim>\<open>os.getenv\<close> gave (\<open>None\<close> when the variable is unset), \<open>session\<close>
  the lazily created \<^verbatim>\<open>httpx.AsyncClient\<close>. \<open>calls\<close> is not a field of the class: it records
  every request \<^verbatim>\<open>client.get\<close> has been asked to send, oldest first, so that "no network
  call" can be stated. Every method takes the server and returns it with its result; one
  call runs at a time (the interleaving of coroutines is not modelled).
\<close>

record client =
  headers :: "(string \<times> string) list"
  cookies :: "(string \<times> string option) list"
  timeout :: nat
  follow_redirects :: bool

record request =
  url :: string
  params :: "(string \<times> json) list"

record server =
  li_at_cookie :: "string option"
  session :: "client option"
  calls :: "request list"

text \<open>
  The upstream service is a parameter: given the client, the requests sent so far and the
  request, \<open>Inr\<close> the parsed body of a successful response, or \<open>Inl\<close> the message of
  whatever \<^verbatim>\<open>client.get\<close>, \<^verbatim>\<open>raise_for_status\<close> or \<^verbatim>\<open>response.json\<close> raised.
\<close>

type_synonym upstream = "client \<Rightarrow> request list \<Rightarrow> request \<Rightarrow> string + json"

text \<open>\<^verbatim>\<open>get_http_client\<close> (lines 164 to 180).\<close>

definition get_http_client :: "server \<Rightarrow> client \<times> server" where
  "get_http_client st =
     (case session st of
        None \<Rightarrow>
          (let c = \<lparr>headers =
                      [(''User-Agent'', ''Mozilla/5.0 (Macintosh; Intel Mac OS X 10_15_7) AppleWebKit/537.36''),
                       (''Accept'', ''application/json''),
                       (''Accept-Language'', ''en-US,en;q=0.9''),
                       (''csrf-token'', ''ajax:8234567890123456789'')],
                    cookies = [(''li_at'', li_at_cookie st)],
                    timeout = 30,
                    follow_redirects = True\<rparr>
           in (c, st\<lparr>session := Some c\<rparr>))
      | Some c \<Rightarrow> (c, st))"

text \<open>\<^verbatim>\<open>client.get(url, params=...)\<close>, \<^verbatim>\<open>raise_for_status()\<close> and \<^verbatim>\<open>response.json()\<close>.\<close>

definition client_get :: "upstream \<Rightarrow> client \<Rightarrow> request \<Rightarrow> server \<Rightarrow> (py_error + json) \<times> server" where
  "client_get net c req st =
     ((case net c (calls st) req of Inl m \<Rightarrow> Inl (UpstreamError m) | Inr d \<Rightarrow> Inr d),
      st\<lparr>calls := calls st @ [req]\<rparr>)"

subsection \<open>Profile by URL\<close>

text \<open>Lines 213 to 216: the username taken from the argument.\<close>

fun extract_username :: "json \<Rightarrow> py_error + string" where
  "extract_username (JStr profile_url) =
     bind (py_last (split_on CHR ''/'' profile_url)) (\<lambda>seg.
     bind (py_first (split_on CHR ''?'' seg)) (\<lambda>username.
     Inr (if \<not> is_substring ''linkedin.com'' username then profile_url else username)))"
| "extract_username v = Inl (AttributeError (type_name v) ''split'')"

text \<open>Lines 250 to 257: one of the two date strings of a position.\<close>

definition add_date :: "pylib \<Rightarrow> json \<Rightarrow> string \<Rightarrow> string \<Rightarrow> (string \<times> json) list \<Rightarrow> py_error + (string \<times> json) list" where
  "add_date L time_period src dst experience =
     bind (py_contains src time_period) (\<lambda>present.
       if present then
         bind (py_getitem time_period src) (\<lambda>d.
         bind (py_get d ''month'' (JStr [])) (\<lambda>m.
         bind (py_get d ''year'' (JStr [])) (\<lambda>y.
         Inr (AList.update dst (JStr (py_str L m @ ''/'' @ py_str L y)) experience))))
       else Inr experience)"

text \<open>Lines 243 to 259: the body of the loop over positions.\<close>

definition experience_of :: "pylib \<Rightarrow> json \<Rightarrow> py_error + json" where
  "experience_of L pos =
     bind (py_get pos ''title'' (JStr [])) (\<lambda>title.
     bind (py_get pos ''companyName'' (JStr [])) (\<lambda>company.
     bind (py_get pos ''description'' (JStr [])) (\<lambda>descr.
     bind (py_get pos ''locationName'' (JStr [])) (\<lambda>location.
     bind (py_contains ''timePeriod'' pos) (\<lambda>present.
     bind (if present then
             bind (py_getitem pos ''timePeriod'') (\<lambda>time_period.
             bind (add_date L time_period ''startDate'' ''start_date''
                     [(''title'', title), (''company'', company),
                      (''description'', descr), (''location'', location)]) (\<lambda>e1.
             add_date L time_period ''endDate'' ''end_date'' e1))
           else Inr [(''title'', title), (''company'', company),
                     (''description'', descr), (''location'', location)]) (\<lambda>experience.
     Inr (JObj experience)))))))"

text \<open>Lines 264 to 269: the body of the loop over schools.\<close>

definition education_of :: "json \<Rightarrow> py_error + json" where
  "education_of school =
     bind (py_get school ''schoolName'' (JStr [])) (\<lambda>s.
     bind (py_get school ''degreeName'' (JStr [])) (\<lambda>d.
     bind (py_get school ''fieldOfStudy'' (JStr [])) (\<lambda>f.
     Inr (JObj [(''school'', s), (''degree'', d), (''field'', f)]))))"

text \<open>Line 274: the body of the loop over skills.\<close>

definition skill_of :: "json \<Rightarrow> py_error + json" where
  "skill_of skill = py_get skill ''name'' (JStr [])"

text \<open>Lines 226 to 276: the profile record built from the response \<open>data\<close>.\<close>

definition profile_of_response :: "pylib \<Rightarrow> string \<Rightarrow> json \<Rightarrow> py_error + json" where
  "profile_of_response L username data =
     bind (py_get data ''profile'' (JObj [])) (\<lambda>profile_data.
     bind (py_get profile_data ''firstName'' (JStr [])) (\<lambda>first.
     bind (py_get profile_data ''lastName'' (JStr [])) (\<lambda>last.
     bind (py_get profile_data ''headline'' (JStr [])) (\<lambda>headline.
     bind (py_get profile_data ''summary'' (JStr [])) (\<lambda>summary.
     bind (py_get profile_data ''locationName'' (JStr [])) (\<lambda>location.
     bind (py_get profile_data ''industryName'' (JStr [])) (\<lambda>industry.
     bind (py_get data ''positionView'' (JObj [])) (\<lambda>pv.
     bind (py_get pv ''elements'' (JArr [])) (\<lambda>positions.
     bind (py_iter positions) (\<lambda>ps.
     bind (for_each (experience_of L) ps) (\<lambda>experience.
     bind (py_get data ''educationView'' (JObj [])) (\<lambda>ev.
     bind (py_get ev ''elements'' (JArr [])) (\<lambda>schools.
     bind (py_iter schools) (\<lambda>scs.
     bind (for_each education_of scs) (\<lambda>education.
     bind (py_get data ''skillView'' (JObj [])) (\<lambda>sv.
     bind (py_get sv ''elements'' (JArr [])) (\<lambda>skills.
     bind (py_slice L skills (JInt 10)) (\<lambda>top.
     bind (py_iter top) (\<lambda>sks.
     bind (for_each skill_of sks) (\<lambda>names.
     Inr (JObj
       [(''name'', JStr (py_str L first @ '' '' @ py_str L last)),
        (''headline'', headline),
        (''summary'', summary),
        (''location'', location),
        (''industry'', industry),
        (''profile_url'', JStr (''https://www.linkedin.com/in/'' @ username)),
        (''experience'', JArr experience),
        (''education'', JArr education),
        (''skills'', JArr names)])))))))))))))))))))))"

text \<open>\<^verbatim>\<open>get_profile_by_url\<close> (lines 209 to 276).\<close>

definition get_profile_by_url :: "pylib \<Rightarrow> upstream \<Rightarrow> server \<Rightarrow> json \<Rightarrow> (py_error + json) \<times> server" where
  "get_profile_by_url L net st profile_url =
     (case get_http_client st of (c, st1) \<Rightarrow>
        (case extract_username profile_url of
           Inl e \<Rightarrow> (Inl e, st1)
         | Inr username \<Rightarrow>
             (case client_get net c
                     \<lparr>url = ''https://www.linkedin.com/voyager/api/identity/profiles/'' @ username @ ''/profileView'',
                      params = []\<rparr> st1 of
                (r, st2) \<Rightarrow> (bind r (profile_of_response L username), st2))))"

subsection \<open>Own profile\<close>

text \<open>Lines 194 to 199: the minimal record.\<close>

definition basic_profile :: "pylib \<Rightarrow> json \<Rightarrow> py_error + (string \<times> json) list" where
  "basic_profile L data =
     bind (py_get data ''firstName'' (JStr [])) (\<lambda>first.
     bind (py_get data ''lastName'' (JStr [])) (\<lambda>last.
     bind (py_get data ''headline'' (JStr [])) (\<lambda>headline.
     bind (py_get data ''publicIdentifier'' (JStr [])) (\<lambda>pid.
     Inr [(''name'', JStr (py_str L first @ '' '' @ py_str L last)),
          (''headline'', headline),
          (''publicIdentifier'', pid),
          (''profile_url'', JStr (''https://www.linkedin.com/in/'' @ py_str L pid))]))))"

text \<open>\<^verbatim>\<open>get_my_profile\<close> (lines 182 to 207).\<close>

definition get_my_profile :: "pylib \<Rightarrow> upstream \<Rightarrow> server \<Rightarrow> (py_error + json) \<times> server" where
  "get_my_profile L net st =
     (case get_http_client st of (c, st1) \<Rightarrow>
        (case client_get net c \<lparr>url = ''https://www.linkedin.com/voyager/api/me'', params = []\<rparr> st1 of
           (Inl e, st2) \<Rightarrow> (Inl e, st2)
         | (Inr data, st2) \<Rightarrow>
             (case basic_profile L data of
                Inl e \<Rightarrow> (Inl e, st2)
              | Inr profile \<Rightarrow>
                  (case py_get data ''publicIdentifier'' JNull of
                     Inl e \<Rightarrow> (Inl e, st2)
                   | Inr username \<Rightarrow>
                       if truthy username then
                         (case get_profile_by_url L net st2 username of
                            (r, st3) \<Rightarrow> (bind r (py_update profile), st3))
                       else (Inr (JObj profile), st2)))))"

subsection \<open>People search, job search, connections\<close>

text \<open>Lines 298 to 305: the body of the loop over search hits.\<close>

definition profile_hit :: "pylib \<Rightarrow> json \<Rightarrow> py_error + json" where
  "profile_hit L element =
     bind (py_get element ''hitInfo'' (JObj [])) (\<lambda>hit.
     bind (py_get hit ''*profile'' (JObj [])) (\<lambda>profile.
     bind (py_get profile ''firstName'' (JStr [])) (\<lambda>first.
     bind (py_get profile ''lastName'' (JStr [])) (\<lambda>last.
     bind (py_get profile ''headline'' (JStr [])) (\<lambda>headline.
     bind (py_get profile ''geoLocationName'' (JStr [])) (\<lambda>location.
     bind (py_get profile ''publicIdentifier'' (JStr [])) (\<lambda>pid.
     Inr (JObj
       [(''name'', JStr (py_str L first @ '' '' @ py_str L last)),
        (''headline'', headline),
        (''location'', location),
        (''public_id'', pid),
        (''profile_url'', JStr (''https://www.linkedin.com/in/'' @ py_str L pid))]))))))))"

text \<open>Lines 294 to 307.\<close>

definition profiles_of_response :: "pylib \<Rightarrow> json \<Rightarrow> py_error + json" where
  "profiles_of_response L data =
     bind (py_get data ''elements'' (JArr [])) (\<lambda>elements.
     bind (py_iter elements) (\<lambda>es.
     bind (for_each (profile_hit L) es) (\<lambda>results.
     Inr (JObj [(''count'', JInt (int (length results))), (''results'', JArr results)]))))"

text \<open>\<^verbatim>\<open>search_profiles\<close> (lines 278 to 307).\<close>

definition search_profiles :: "pylib \<Rightarrow> upstream \<Rightarrow> server \<Rightarrow> json \<Rightarrow> json \<Rightarrow> (py_error + json) \<times> server" where
  "search_profiles L net st query limit =
     (case get_http_client st of (c, st1) \<Rightarrow>
        (case client_get net c
                \<lparr>url = ''https://www.linkedin.com/voyager/api/search/blended'',
                 params = [(''keywords'', query),
                           (''filters'', JStr ''List(resultType->PEOPLE)''),
                           (''queryContext'', JStr ''List(spellCorrectionEnabled->true)''),
                           (''count'', limit)]\<rparr> st1 of
           (r, st2) \<Rightarrow> (bind r (profiles_of_response L), st2)))"

text \<open>Lines 335 to 342: the body of the loop over job hits.\<close>

definition job_hit :: "pylib \<Rightarrow> json \<Rightarrow> py_error + json" where
  "job_hit L element =
     bind (py_get element ''hitInfo'' (JObj [])) (\<lambda>hit.
     bind (py_get hit ''*jobPosting'' (JObj [])) (\<lambda>job.
     bind (py_get job ''title'' (JStr [])) (\<lambda>title.
     bind (py_get job ''companyName'' (JStr [])) (\<lambda>company.
     bind (py_get job ''formattedLocation'' (JStr [])) (\<lambda>location.
     bind (py_get job ''jobPostingId'' (JStr [])) (\<lambda>jid.
     bind (py_get job ''listedAt'' (JStr [])) (\<lambda>posted.
     Inr (JObj
       [(''title'', title),
        (''company'', company),
        (''location'', location),
        (''job_url'', JStr (''https://www.linkedin.com/jobs/view/'' @ py_str L jid)),
        (''posted'', posted)]))))))))"

text \<open>Lines 331 to 344.\<close>

definition jobs_of_response :: "pylib \<Rightarrow> json \<Rightarrow> py_error + json" where
  "jobs_of_response L data =
     bind (py_get data ''elements'' (JArr [])) (\<lambda>elements.
     bind (py_iter elements) (\<lambda>es.
     bind (for_each (job_hit L) es) (\<lambda>jobs.
     Inr (JObj [(''count'', JInt (int (length jobs))), (''jobs'', JArr jobs)]))))"

text \<open>\<^verbatim>\<open>search_jobs\<close> (lines 309 to 344).\<close>

definition search_jobs :: "pylib \<Rightarrow> upstream \<Rightarrow> server \<Rightarrow> json \<Rightarrow> json \<Rightarrow> json \<Rightarrow> (py_error + json) \<times> server" where
  "search_jobs L net st keywords location limit =
     (case get_http_client st of (c, st1) \<Rightarrow>
        (case client_get net c
                \<lparr>url = ''https://www.linkedin.com/voyager/api/search/blended'',
                 params = [(''keywords'', keywords), (''count'', limit)]
                          @ (if truthy location then [(''location'', location)] else [])
                          @ [(''filters'', JStr ''List(resultType->JOBS)''),
                             (''queryContext'', JStr ''List(spellCorrectionEnabled->true)'')]\<rparr> st1 of
           (r, st2) \<Rightarrow> (bind r (jobs_of_response L), st2)))"

text \<open>Lines 361 to 366: the body of the loop over connections.\<close>

definition connection_of :: "pylib \<Rightarrow> json \<Rightarrow> py_error + json" where
  "connection_of L element =
     bind (py_get element ''connectedMember'' (JObj [])) (\<lambda>conn.
     bind (py_get conn ''firstName'' (JStr [])) (\<lambda>first.
     bind (py_get conn ''lastName'' (JStr [])) (\<lambda>last.
     bind (py_get conn ''headline'' (JStr [])) (\<lambda>headline.
     bind (py_get conn ''publicIdentifier'' (JStr [])) (\<lambda>pid.
     Inr (JObj
       [(''name'', JStr (py_str L first @ '' '' @ py_str L last)),
        (''headline'', headline),
        (''profile_url'', JStr (''https://www.linkedin.com/in/'' @ py_str L pid))]))))))"

text \<open>Lines 357 to 368.\<close>

definition connections_of_response :: "pylib \<Rightarrow> json \<Rightarrow> py_error + json" where
  "connections_of_response L data =
     bind (py_get data ''elements'' (JArr [])) (\<lambda>elements.
     bind (py_iter elements) (\<lambda>es.
     bind (for_each (connection_of L) es) (\<lambda>connections.
     Inr (JObj [(''count'', JInt (int (length connections))), (''connections'', JArr connections)]))))"

text \<open>\<^verbatim>\<open>get_my_connections\<close> (lines 346 to 368).\<close>

definition get_my_connections :: "pylib \<Rightarrow> upstream \<Rightarrow> server \<Rightarrow> json \<Rightarrow> (py_error + json) \<times> server" where
  "get_my_connections L net st limit =
     (case get_http_client st of (c, st1) \<Rightarrow>
        (case client_get net c
                \<lparr>url = ''https://www.linkedin.com/voyager/api/relationships/connections'',
                 params = [(''count'', limit)]\<rparr> st1 of
           (r, st2) \<Rightarrow> (bind r (connections_of_response L), st2)))"

subsection \<open>Feed\<close>

definition update_v2 :: string where
  "update_v2 = ''com.linkedin.voyager.feed.render.UpdateV2''"

text \<open>Lines 385 to 399: the body of the loop over feed elements.\<close>

definition feed_post :: "json \<Rightarrow> py_error + json" where
  "feed_post element =
     bind (py_contains ''value'' element) (\<lambda>has_value.
     bind (if has_value then
             bind (py_getitem element ''value'') (\<lambda>v.
             bind (py_contains update_v2 v) (\<lambda>has_update.
               if has_update then
                 bind (py_getitem v update_v2) (\<lambda>upd.
                 bind (py_get upd ''commentary'' (JObj [])) (\<lambda>commentary.
                 bind (py_get commentary ''text'' (JObj [])) (\<lambda>t.
                 bind (py_get t ''text'' (JStr [])) (\<lambda>txt.
                 Inr (AList.update ''text'' txt
                        [(''text'', JStr []), (''author'', JStr []), (''timestamp'', JStr [])])))))
               else Inr [(''text'', JStr []), (''author'', JStr []), (''timestamp'', JStr [])]))
           else Inr [(''text'', JStr []), (''author'', JStr []), (''timestamp'', JStr [])]) (\<lambda>post.
     Inr (JObj post)))"

text \<open>Lines 381 to 401.\<close>

definition feed_of_response :: "pylib \<Rightarrow> json \<Rightarrow> json \<Rightarrow> py_error + json" where
  "feed_of_response L data limit =
     bind (py_get data ''elements'' (JArr [])) (\<lambda>elements.
     bind (py_slice L elements limit) (\<lambda>shown.
     bind (py_iter shown) (\<lambda>es.
     bind (for_each feed_post es) (\<lambda>posts.
     Inr (JObj [(''count'', JInt (int (length posts))), (''posts'', JArr posts)])))))"

text \<open>\<^verbatim>\<open>get_feed\<close> (lines 370 to 401).\<close>

definition get_feed :: "pylib \<Rightarrow> upstream \<Rightarrow> server \<Rightarrow> json \<Rightarrow> (py_error + json) \<times> server" where
  "get_feed L net st limit =
     (case get_http_client st of (c, st1) \<Rightarrow>
        (case client_get net c
                \<lparr>url = ''https://www.linkedin.com/voyager/api/feed/updates'',
                 params = [(''count'', limit)]\<rparr> st1 of
           (r, st2) \<Rightarrow> (bind r (\<lambda>data. feed_of_response L data limit), st2)))"

subsection \<open>Dispatch\<close>

datatype text_content = TextContent (content_type: string) (content_text: string)

text \<open>Lines 137 to 158: the \<^verbatim>\<open>if\<close>/\<^verbatim>\<open>elif\<close> chain inside the \<^verbatim>\<open>try\<close>.\<close>

definition dispatch :: "pylib \<Rightarrow> upstream \<Rightarrow> server \<Rightarrow> string \<Rightarrow> json \<Rightarrow> (py_error + json) \<times> server" where
  "dispatch L net st nm arguments =
     (if nm = ''get_my_profile'' then get_my_profile L net st
      else if nm = ''get_profile_by_url'' then
        (case py_getitem arguments ''profile_url'' of
           Inl e \<Rightarrow> (Inl e, st)
         | Inr profile_url \<Rightarrow> get_profile_by_url L net st profile_url)
      else if nm = ''search_profiles'' then
        (case py_getitem arguments ''query'' of
           Inl e \<Rightarrow> (Inl e, st)
         | Inr query \<Rightarrow>
             (case py_get arguments ''limit'' (JInt 10) of
                Inl e \<Rightarrow> (Inl e, st)
              | Inr limit \<Rightarrow> search_profiles L net st query limit))
      else if nm = ''search_jobs'' then
        (case py_getitem arguments ''keywords'' of
           Inl e \<Rightarrow> (Inl e, st)
         | Inr keywords \<Rightarrow>
             (case py_get arguments ''location'' (JStr []) of
                Inl e \<Rightarrow> (Inl e, st)
              | Inr location \<Rightarrow>
                  (case py_get arguments ''limit'' (JInt 10) of
                     Inl e \<Rightarrow> (Inl e, st)
                   | Inr limit \<Rightarrow> search_jobs L net st keywords location limit)))
      else if nm = ''get_my_connections'' then
        (case py_get arguments ''limit'' (JInt 20) of
           Inl e \<Rightarrow> (Inl e, st)
         | Inr limit \<Rightarrow> get_my_connections L net st limit)
      else if nm = ''get_feed'' then
        (case py_get arguments ''limit'' (JInt 10) of
           Inl e \<Rightarrow> (Inl e, st)
         | Inr limit \<Rightarrow> get_feed L net st limit)
      else (Inr (JStr (''Unknown tool: '' @ nm)), st))"

definition cookie_hint :: string where
  "cookie_hint = [CHR 0x0A, CHR 0x0A] @ ''Make sure your LinkedIn session cookie is valid and not expired.''"

text \<open>\<^verbatim>\<open>not self.li_at_cookie\<close>: the variable is unset or empty.\<close>

definition cookie_missing :: "server \<Rightarrow> bool" where
  "cookie_missing st = (case li_at_cookie st of None \<Rightarrow> True | Some c \<Rightarrow> c = [])"

text \<open>\<^verbatim>\<open>call_tool\<close> (lines 128 to 162).\<close>

definition call_tool :: "pylib \<Rightarrow> upstream \<Rightarrow> server \<Rightarrow> string \<Rightarrow> json \<Rightarrow> text_content list \<times> server" where
  "call_tool L net st nm arguments =
     (if cookie_missing st then
        ([TextContent ''text''
            ''Error: LINKEDIN_SESSION_COOKIE environment variable not set. Please configure your LinkedIn session cookie.''],
         st)
      else
        (case dispatch L net st nm arguments of
           (Inr result, st1) \<Rightarrow> ([TextContent ''text'' (json_dumps L result)], st1)
         | (Inl e, st1) \<Rightarrow>
             ([TextContent ''text'' (''Error: '' @ exc_str L e @ cookie_hint)], st1)))"

section \<open>Reading documents\<close>

text \<open>
  What the theorems below use to speak about a document: the value \<^verbatim>\<open>d.get(k, dflt)\<close>
  returns on a dict, the elements of a list, the list under \<^verbatim>\<open>elements\<close>, and the shapes
  the loops rely on when they call \<^verbatim>\<open>.get\<close> on what they find. In every shape a key may be
  absent; only a key that is present with a value of another kind is excluded.
\<close>

definition dget :: "(string \<times> json) list \<Rightarrow> string \<Rightarrow> json \<Rightarrow> json" where
  "dget kvs k d = (case map_of kvs k of Some v \<Rightarrow> v | None \<Rightarrow> d)"

fun is_obj :: "json \<Rightarrow> bool" where
  "is_obj (JObj kvs) = True"
| "is_obj v = False"

fun items :: "json \<Rightarrow> json list" where
  "items (JArr xs) = xs"
| "items v = []"

definition elements :: "json \<Rightarrow> json list" where
  "elements d = items (dget (obj_fields d) ''elements'' (JArr []))"

definition view_elements :: "string \<Rightarrow> json \<Rightarrow> json list" where
  "view_elements view d = elements (dget (obj_fields d) view (JObj []))"

text \<open>The fields of the job posting of a search hit: what is under \<^verbatim>\<open>hitInfo\<close> and then
  \<^verbatim>\<open>*jobPosting\<close>, nothing where either is absent.\<close>

definition posting :: "json \<Rightarrow> (string \<times> json) list" where
  "posting element =
     obj_fields (dget (obj_fields (dget (obj_fields element) ''hitInfo'' (JObj []))) ''*jobPosting'' (JObj []))"

text \<open>\<open>nested ks v\<close>: \<open>v\<close> is an object, and as far as the keys \<open>ks\<close> lead from it through
  present fields, every value on the way is an object.\<close>

fun nested :: "string list \<Rightarrow> json \<Rightarrow> bool" where
  "nested [] v = is_obj v"
| "nested (k # ks) (JObj kvs) = (case map_of kvs k of None \<Rightarrow> True | Some w \<Rightarrow> nested ks w)"
| "nested (k # ks) v = False"

text \<open>\<open>elements_ok Q d\<close>: \<open>d\<close> is an object whose \<^verbatim>\<open>elements\<close>, when present, is a list that
  satisfies \<open>Q\<close>. \<open>view_ok Q view d\<close>: the field \<open>view\<close> of \<open>d\<close>, when present, is such an object.\<close>

fun elements_ok :: "(json list \<Rightarrow> bool) \<Rightarrow> json \<Rightarrow> bool" where
  "elements_ok Q (JObj kvs) =
     (case map_of kvs ''elements'' of None \<Rightarrow> True | Some (JArr xs) \<Rightarrow> Q xs | Some _ \<Rightarrow> False)"
| "elements_ok Q v = False"

definition view_ok :: "(json list \<Rightarrow> bool) \<Rightarrow> string \<Rightarrow> json \<Rightarrow> bool" where
  "view_ok Q view d = (case map_of (obj_fields d) view of None \<Rightarrow> True | Some v \<Rightarrow> elements_ok Q v)"

definition position_shape :: "json \<Rightarrow> bool" where
  "position_shape pos =
     (nested [''timePeriod'', ''startDate''] pos \<and> nested [''timePeriod'', ''endDate''] pos)"

definition profile_shape :: "json \<Rightarrow> bool" where
  "profile_shape d =
     (nested [''profile''] d
      \<and> view_ok (list_all position_shape) ''positionView'' d
      \<and> view_ok (list_all is_obj) ''educationView'' d
      \<and> view_ok (list_all is_obj) ''skillView'' d)"

definition people_shape :: "json \<Rightarrow> bool" where
  "people_shape d = elements_ok (list_all (nested [''hitInfo'', ''*profile''])) d"

definition jobs_shape :: "json \<Rightarrow> bool" where
  "jobs_shape d = elements_ok (list_all (nested [''hitInfo'', ''*jobPosting''])) d"

definition connections_shape :: "json \<Rightarrow> bool" where
  "connections_shape d = elements_ok (list_all (nested [''connectedMember''])) d"

text \<open>The document of the own-profile request: an object whose \<^verbatim>\<open>publicIdentifier\<close>, when
  present, is a string, or a value that \<^verbatim>\<open>if username:\<close> takes as false.\<close>

fun is_str :: "json \<Rightarrow> bool" where
  "is_str (JStr s) = True"
| "is_str v = False"

definition me_shape :: "json \<Rightarrow> bool" where
  "me_shape d =
     (is_obj d
      \<and> (case map_of (obj_fields d) ''publicIdentifier'' of
            None \<Rightarrow> True
          | Some v \<Rightarrow> is_str v \<or> \<not> truthy v))"

text \<open>The feed reads the first \<open>n\<close> elements only.\<close>

definition feed_shape :: "nat \<Rightarrow> json \<Rightarrow> bool" where
  "feed_shape n d =
     elements_ok (\<lambda>xs. list_all (nested [''value'', update_v2, ''commentary'', ''text'']) (take n xs)) d"

text \<open>An element of the feed without the \<^verbatim>\<open>UpdateV2\<close> variant: an object with no \<^verbatim>\<open>value\<close>, or
  whose \<^verbatim>\<open>value\<close> is an object without that key.\<close>

fun lacks_update :: "json \<Rightarrow> bool" where
  "lacks_update (JObj kvs) =
     (case map_of kvs ''value'' of
        None \<Rightarrow> True
      | Some (JObj vs) \<Rightarrow> map_of vs update_v2 = None
      | Some _ \<Rightarrow> False)"
| "lacks_update v = False"

definition empty_post :: json where
  "empty_post = JObj [(''text'', JStr []), (''author'', JStr []), (''timestamp'', JStr [])]"

section \<open>Sample documents\<close>

text \<open>Three documents with keys missing at several depths, and a server that holds a
  cookie and has sent nothing yet. The theorems are applied to them below.\<close>

definition sample_profile :: json where
  "sample_profile =
     JObj [(''profile'', JObj [(''firstName'', JStr ''Ada''), (''headline'', JStr ''Engineer'')]),
           (''positionView'', JObj [(''elements'', JArr
              [JObj [(''title'', JStr ''Analyst''),
                     (''timePeriod'', JObj [(''startDate'', JObj [(''year'', JInt 1842)])])],
               JObj []])]),
           (''skillView'', JObj [(''elements'', JArr
              [JObj [(''name'', JStr ''s01'')], JObj [(''name'', JStr ''s02'')],
               JObj [(''name'', JStr ''s03'')], JObj [],
               JObj [(''name'', JStr ''s05'')], JObj [(''name'', JStr ''s06'')],
               JObj [(''name'', JStr ''s07'')], JObj [(''name'', JStr ''s08'')],
               JObj [(''name'', JStr ''s09'')], JObj [(''name'', JStr ''s10'')],
               JObj [(''name'', JStr ''s11'')], JObj [(''name'', JStr ''s12'')]])])]"

definition sample_hits :: json where
  "sample_hits =
     JObj [(''elements'', JArr
       [JObj [(''hitInfo'', JObj
                [(''*jobPosting'', JObj [(''title'', JStr ''Compiler engineer''), (''jobPostingId'', JInt 42)]),
                 (''*profile'', JObj [(''firstName'', JStr ''Ada''), (''publicIdentifier'', JStr ''ada'')])]),
              (''connectedMember'', JObj [(''firstName'', JStr ''Ada'')]),
              (''value'', JObj [(update_v2, JObj
                 [(''commentary'', JObj [(''text'', JObj [(''text'', JStr ''hello'')])])])])],
        JObj [(''hitInfo'', JObj
                [(''*jobPosting'', JObj [(''title'', JStr ''Proof engineer''), (''companyName'', JStr ''Kernel'')])]),
              (''value'', JObj [])],
        JObj []])]"

definition sample_me :: json where
  "sample_me = JObj [(''firstName'', JStr ''Ada''), (''publicIdentifier'', JStr ''ada'')]"

definition sample_server :: server where
  "sample_server = \<lparr>li_at_cookie = Some ''AQEDAT'', session = None, calls = []\<rparr>"

section \<open>Basic facts\<close>

lemma bind_Inr [simp]: "bind (Inr v) f = f v"
  by (simp add: bind_def)

lemma bind_Inl [simp]: "bind (Inl e) f = Inl e"
  by (simp add: bind_def)

lemma for_each_iff: "for_each f xs = Inr ys \<longleftrightarrow> list_all2 (\<lambda>x y. f x = Inr y) xs ys"
proof (induction xs arbitrary: ys)
  case Nil
  then show ?case by auto
next
  case (Cons x xs)
  show ?case
  proof (cases "f x")
    case (Inl e)
    then show ?thesis by (auto simp: list_all2_Cons1)
  next
    case (Inr y)
    then show ?thesis
      using Cons.IH by (cases "for_each f xs") (auto simp: list_all2_Cons1)
  qed
qed

lemma for_each_map: "(\<And>x. x \<in> set xs \<Longrightarrow> f x = Inr (g x)) \<Longrightarrow> for_each f xs = Inr (map g xs)"
  by (induction xs) auto

lemma for_each_total:
  assumes "list_all P xs" and "\<And>x. P x \<Longrightarrow> \<exists>y. f x = Inr y"
  shows "\<exists>ys. for_each f xs = Inr ys"
  using assms(1)
proof (induction xs)
  case Nil
  then show ?case by simp
next
  case (Cons x xs)
  then obtain y ys where "f x = Inr y" "for_each f xs = Inr ys"
    using assms(2) by fastforce
  then show ?case by simp
qed

lemma py_get_obj: "is_obj v \<Longrightarrow> py_get v k d = Inr (dget (obj_fields v) k d)"
  by (cases v) (auto simp: dget_def split: option.splits)

lemma nested_is_obj: "nested ks v \<Longrightarrow> is_obj v"
  by (cases ks; cases v) auto

lemma nested_empty: "nested ks (JObj [])"
  by (cases ks) auto

lemma nested_step: "nested (k # ks) v \<Longrightarrow> nested ks (dget (obj_fields v) k (JObj []))"
  by (cases v) (auto simp: dget_def nested_empty split: option.splits)

lemma elements_ok_get:
  assumes "elements_ok Q d"
  shows "py_get d ''elements'' (JArr []) = Inr (JArr (elements d))"
proof -
  obtain kvs where d: "d = JObj kvs" using assms by (cases d) auto
  show ?thesis
    using assms unfolding d
    by (auto simp: elements_def dget_def split: option.splits json.splits)
qed

lemma elements_ok_empty: "Q [] \<Longrightarrow> elements_ok Q (JObj [])"
  by simp

lemma elements_ok_Q: "elements_ok Q d \<Longrightarrow> Q [] \<Longrightarrow> Q (elements d)"
  by (cases d) (auto simp: elements_def dget_def split: option.splits json.splits)

lemma view_ok_get:
  assumes "is_obj d" and "view_ok Q view d" and "Q []"
  shows "elements_ok Q (dget (obj_fields d) view (JObj []))"
  using assms by (auto simp: view_ok_def dget_def split: option.splits)

lemma job_hit_shaped:
  assumes "nested [''hitInfo'', ''*jobPosting''] e"
  shows "\<exists>j. job_hit L e = Inr j"
proof -
  let ?hit = "dget (obj_fields e) ''hitInfo'' (JObj [])"
  let ?job = "dget (obj_fields ?hit) ''*jobPosting'' (JObj [])"
  have 1: "is_obj e" using assms by (rule nested_is_obj)
  have 2: "nested [''*jobPosting''] ?hit" using assms by (rule nested_step)
  have 3: "is_obj ?hit" using 2 by (rule nested_is_obj)
  have 4: "is_obj ?job" using nested_step [OF 2] by simp
  show ?thesis
    by (simp add: job_hit_def py_get_obj 1 3 4)
qed

lemma profile_hit_shaped:
  assumes "nested [''hitInfo'', ''*profile''] e"
  shows "\<exists>j. profile_hit L e = Inr j"
proof -
  let ?hit = "dget (obj_fields e) ''hitInfo'' (JObj [])"
  let ?p = "dget (obj_fields ?hit) ''*profile'' (JObj [])"
  have 1: "is_obj e" using assms by (rule nested_is_obj)
  have 2: "nested [''*profile''] ?hit" using assms by (rule nested_step)
  have 3: "is_obj ?hit" using 2 by (rule nested_is_obj)
  have 4: "is_obj ?p" using nested_step [OF 2] by simp
  show ?thesis
    by (simp add: profile_hit_def py_get_obj 1 3 4)
qed

lemma connection_of_shaped:
  assumes "nested [''connectedMember''] e"
  shows "\<exists>j. connection_of L e = Inr j"
proof -
  have 1: "is_obj e" using assms by (rule nested_is_obj)
  have 2: "is_obj (dget (obj_fields e) ''connectedMember'' (JObj []))"
    using nested_step [OF assms] by simp
  show ?thesis
    by (simp add: connection_of_def py_get_obj 1 2)
qed

lemma education_of_obj: "is_obj e \<Longrightarrow> \<exists>r. education_of e = Inr r"
  by (simp add: education_of_def py_get_obj)

lemma skill_of_obj: "is_obj e \<Longrightarrow> skill_of e = Inr (dget (obj_fields e) ''name'' (JStr []))"
  by (simp add: skill_of_def py_get_obj)

lemma py_contains_obj: "is_obj v \<Longrightarrow> py_contains k v = Inr (map_of (obj_fields v) k \<noteq> None)"
  by (cases v) auto

lemma py_getitem_present:
  "is_obj v \<Longrightarrow> map_of (obj_fields v) k \<noteq> None \<Longrightarrow> py_getitem v k = Inr (dget (obj_fields v) k dflt)"
  by (cases v) (auto simp: dget_def)

lemma add_date_shaped:
  assumes "nested [src] tp"
  shows "\<exists>r. add_date L tp src dst e = Inr r"
proof -
  have 1: "is_obj tp" using assms by (rule nested_is_obj)
  have 2: "is_obj (dget (obj_fields tp) src (JObj []))" using nested_step [OF assms] by simp
  show ?thesis
    by (simp add: add_date_def py_contains_obj [OF 1] py_getitem_present [OF 1, where dflt = "JObj []"]
        py_get_obj [OF 2])
qed

lemma experience_of_shaped:
  assumes "position_shape pos"
  shows "\<exists>r. experience_of L pos = Inr r"
proof -
  let ?tp = "dget (obj_fields pos) ''timePeriod'' (JObj [])"
  have s: "nested [''timePeriod'', ''startDate''] pos" and e: "nested [''timePeriod'', ''endDate''] pos"
    using assms by (simp_all add: position_shape_def)
  have 1: "is_obj pos" using s by (rule nested_is_obj)
  have 2: "nested [''startDate''] ?tp" using s by (rule nested_step)
  have 3: "nested [''endDate''] ?tp" using e by (rule nested_step)
  show ?thesis
  proof (cases "map_of (obj_fields pos) ''timePeriod'' = None")
    case True
    then show ?thesis by (simp add: experience_of_def py_get_obj [OF 1] py_contains_obj [OF 1])
  next
    case False
    obtain e1 where e1: "add_date L ?tp ''startDate'' ''start_date''
        [(''title'', dget (obj_fields pos) ''title'' (JStr [])),
         (''company'', dget (obj_fields pos) ''companyName'' (JStr [])),
         (''description'', dget (obj_fields pos) ''description'' (JStr [])),
         (''location'', dget (obj_fields pos) ''locationName'' (JStr []))] = Inr e1"
      using add_date_shaped [OF 2] by blast
    obtain e2 where e2: "add_date L ?tp ''endDate'' ''end_date'' e1 = Inr e2"
      using add_date_shaped [OF 3] by blast
    show ?thesis
      using False
      by (simp add: experience_of_def py_get_obj [OF 1] py_contains_obj [OF 1]
          py_getitem_present [OF 1, where dflt = "JObj []"] e1 e2)
  qed
qed

lemma loop_over_elements:
  assumes ok: "elements_ok (list_all P) d" and f: "\<And>x. P x \<Longrightarrow> \<exists>y. f x = Inr y"
  shows "\<exists>ys. py_get d ''elements'' (JArr []) = Inr (JArr (elements d))
            \<and> for_each f (elements d) = Inr ys
            \<and> length ys = length (elements d)
            \<and> list_all2 (\<lambda>x y. f x = Inr y) (elements d) ys"
proof -
  have "list_all P (elements d)" using ok by (rule elements_ok_Q) simp
  then obtain ys where ys: "for_each f (elements d) = Inr ys"
    using for_each_total [of P "elements d" f] f by blast
  then have rel: "list_all2 (\<lambda>x y. f x = Inr y) (elements d) ys"
    by (simp add: for_each_iff)
  show ?thesis
    using elements_ok_get [OF ok] ys rel list_all2_lengthD [OF rel] by auto
qed

lemma jobs_of_response_shaped:
  assumes "jobs_shape d"
  shows "\<exists>js. jobs_of_response L d =
              Inr (JObj [(''count'', JInt (int (length (elements d)))), (''jobs'', JArr js)])
            \<and> length js = length (elements d)
            \<and> list_all2 (\<lambda>e j. job_hit L e = Inr j) (elements d) js"
proof -
  obtain js where "py_get d ''elements'' (JArr []) = Inr (JArr (elements d))"
      "for_each (job_hit L) (elements d) = Inr js" "length js = length (elements d)"
      "list_all2 (\<lambda>e j. job_hit L e = Inr j) (elements d) js"
    using loop_over_elements [OF assms [unfolded jobs_shape_def], of "job_hit L"] job_hit_shaped
    by blast
  then show ?thesis by (simp add: jobs_of_response_def)
qed

lemma profiles_of_response_shaped:
  assumes "people_shape d"
  shows "\<exists>rs. profiles_of_response L d =
              Inr (JObj [(''count'', JInt (int (length (elements d)))), (''results'', JArr rs)])
            \<and> length rs = length (elements d)
            \<and> list_all2 (\<lambda>e r. profile_hit L e = Inr r) (elements d) rs"
proof -
  obtain rs where "py_get d ''elements'' (JArr []) = Inr (JArr (elements d))"
      "for_each (profile_hit L) (elements d) = Inr rs" "length rs = length (elements d)"
      "list_all2 (\<lambda>e r. profile_hit L e = Inr r) (elements d) rs"
    using loop_over_elements [OF assms [unfolded people_shape_def], of "profile_hit L"] profile_hit_shaped
    by blast
  then show ?thesis by (simp add: profiles_of_response_def)
qed

lemma connections_of_response_shaped:
  assumes "connections_shape d"
  shows "\<exists>cs. connections_of_response L d =
              Inr (JObj [(''count'', JInt (int (length (elements d)))), (''connections'', JArr cs)])
            \<and> length cs = length (elements d)
            \<and> list_all2 (\<lambda>e r. connection_of L e = Inr r) (elements d) cs"
proof -
  obtain cs where "py_get d ''elements'' (JArr []) = Inr (JArr (elements d))"
      "for_each (connection_of L) (elements d) = Inr cs" "length cs = length (elements d)"
      "list_all2 (\<lambda>e r. connection_of L e = Inr r) (elements d) cs"
    using loop_over_elements [OF assms [unfolded connections_shape_def], of "connection_of L"]
      connection_of_shaped
    by blast
  then show ?thesis by (simp add: connections_of_response_def)
qed

lemma feed_post_lacks: "lacks_update e \<Longrightarrow> feed_post e = Inr empty_post"
  by (cases e) (auto simp: feed_post_def empty_post_def split: option.splits json.splits)

lemma feed_post_shaped:
  assumes "nested [''value'', update_v2, ''commentary'', ''text''] e"
  shows "\<exists>p. feed_post e = Inr p"
proof -
  let ?v = "dget (obj_fields e) ''value'' (JObj [])"
  let ?u = "dget (obj_fields ?v) update_v2 (JObj [])"
  let ?c = "dget (obj_fields ?u) ''commentary'' (JObj [])"
  let ?t = "dget (obj_fields ?c) ''text'' (JObj [])"
  have 1: "is_obj e" using assms by (rule nested_is_obj)
  have n2: "nested [update_v2, ''commentary'', ''text''] ?v" using assms by (rule nested_step)
  have 2: "is_obj ?v" using n2 by (rule nested_is_obj)
  have n3: "nested [''commentary'', ''text''] ?u" using n2 by (rule nested_step)
  have 3: "is_obj ?u" using n3 by (rule nested_is_obj)
  have n4: "nested [''text''] ?c" using n3 by (rule nested_step)
  have 4: "is_obj ?c" using n4 by (rule nested_is_obj)
  have 5: "is_obj ?t" using nested_step [OF n4] by simp
  show ?thesis
    by (simp add: feed_post_def py_contains_obj [OF 1] py_contains_obj [OF 2]
        py_getitem_present [OF 1, where dflt = "JObj []"]
        py_getitem_present [OF 2, where dflt = "JObj []"]
        py_get_obj [OF 3] py_get_obj [OF 4] py_get_obj [OF 5])
qed

lemma feed_of_response_shaped:
  assumes ok: "feed_shape (nat n) d" and n: "0 \<le> n"
  shows "\<exists>ps. feed_of_response L d (JInt n) =
              Inr (JObj [(''count'', JInt (int (length ps))), (''posts'', JArr ps)])
            \<and> length ps = min (nat n) (length (elements d))
            \<and> list_all2 (\<lambda>e p. feed_post e = Inr p) (take (nat n) (elements d)) ps"
proof -
  let ?Q = "\<lambda>xs. list_all (nested [''value'', update_v2, ''commentary'', ''text'']) (take (nat n) xs)"
  have ok': "elements_ok ?Q d" using ok by (simp add: feed_shape_def)
  have get: "py_get d ''elements'' (JArr []) = Inr (JArr (elements d))"
    using ok' by (rule elements_ok_get)
  have "?Q (elements d)" using ok' by (rule elements_ok_Q) simp
  then obtain ps where ps: "for_each feed_post (take (nat n) (elements d)) = Inr ps"
    using for_each_total [of _ "take (nat n) (elements d)" feed_post] feed_post_shaped by blast
  then have rel: "list_all2 (\<lambda>e p. feed_post e = Inr p) (take (nat n) (elements d)) ps"
    by (simp add: for_each_iff)
  have len: "length ps = min (nat n) (length (elements d))"
    using list_all2_lengthD [OF rel] by simp
  show ?thesis
    using get ps rel len n by (simp add: feed_of_response_def slice_upto_def)
qed

lemma skills_loop:
  assumes "list_all is_obj xs"
  shows "for_each skill_of (take n xs) = Inr (map (\<lambda>e. dget (obj_fields e) ''name'' (JStr [])) (take n xs))"
proof (rule for_each_map)
  fix x assume "x \<in> set (take n xs)"
  then have "x \<in> set xs" by (rule in_set_takeD)
  with assms have "is_obj x" by (simp add: list_all_iff)
  then show "skill_of x = Inr (dget (obj_fields x) ''name'' (JStr []))" by (rule skill_of_obj)
qed

lemma profile_of_response_shaped:
  assumes "profile_shape d"
  shows "\<exists>ex ed. profile_of_response L u d =
      Inr (JObj
        [(''name'', JStr (py_str L (dget (obj_fields (dget (obj_fields d) ''profile'' (JObj []))) ''firstName'' (JStr []))
                     @ '' '' @
                     py_str L (dget (obj_fields (dget (obj_fields d) ''profile'' (JObj []))) ''lastName'' (JStr [])))),
         (''headline'', dget (obj_fields (dget (obj_fields d) ''profile'' (JObj []))) ''headline'' (JStr [])),
         (''summary'', dget (obj_fields (dget (obj_fields d) ''profile'' (JObj []))) ''summary'' (JStr [])),
         (''location'', dget (obj_fields (dget (obj_fields d) ''profile'' (JObj []))) ''locationName'' (JStr [])),
         (''industry'', dget (obj_fields (dget (obj_fields d) ''profile'' (JObj []))) ''industryName'' (JStr [])),
         (''profile_url'', JStr (''https://www.linkedin.com/in/'' @ u)),
         (''experience'', JArr ex),
         (''education'', JArr ed),
         (''skills'', JArr (map (\<lambda>e. dget (obj_fields e) ''name'' (JStr []))
                             (take 10 (view_elements ''skillView'' d))))])
    \<and> list_all2 (\<lambda>e r. experience_of L e = Inr r) (view_elements ''positionView'' d) ex
    \<and> list_all2 (\<lambda>e r. education_of e = Inr r) (view_elements ''educationView'' d) ed"
proof -
  let ?p = "dget (obj_fields d) ''profile'' (JObj [])"
  let ?pv = "dget (obj_fields d) ''positionView'' (JObj [])"
  let ?ev = "dget (obj_fields d) ''educationView'' (JObj [])"
  let ?sv = "dget (obj_fields d) ''skillView'' (JObj [])"
  have n: "nested [''profile''] d"
    and v1: "view_ok (list_all position_shape) ''positionView'' d"
    and v2: "view_ok (list_all is_obj) ''educationView'' d"
    and v3: "view_ok (list_all is_obj) ''skillView'' d"
    using assms by (simp_all add: profile_shape_def)
  have 1: "is_obj d" using n by (rule nested_is_obj)
  have 2: "is_obj ?p" using nested_step [OF n] by simp
  have e1: "elements_ok (list_all position_shape) ?pv" using 1 v1 by (rule view_ok_get) simp
  have e2: "elements_ok (list_all is_obj) ?ev" using 1 v2 by (rule view_ok_get) simp
  have e3: "elements_ok (list_all is_obj) ?sv" using 1 v3 by (rule view_ok_get) simp
  obtain ex where g1: "py_get ?pv ''elements'' (JArr []) = Inr (JArr (elements ?pv))"
      and f1: "for_each (experience_of L) (elements ?pv) = Inr ex"
      and r1: "list_all2 (\<lambda>e r. experience_of L e = Inr r) (elements ?pv) ex"
    using loop_over_elements [OF e1, of "experience_of L"] experience_of_shaped by blast
  obtain ed where g2: "py_get ?ev ''elements'' (JArr []) = Inr (JArr (elements ?ev))"
      and f2: "for_each education_of (elements ?ev) = Inr ed"
      and r2: "list_all2 (\<lambda>e r. education_of e = Inr r) (elements ?ev) ed"
    using loop_over_elements [OF e2, of education_of] education_of_obj by blast
  have g3: "py_get ?sv ''elements'' (JArr []) = Inr (JArr (elements ?sv))"
    using e3 by (rule elements_ok_get)
  have "list_all is_obj (elements ?sv)" using e3 by (rule elements_ok_Q) simp
  then have f3: "for_each skill_of (take 10 (elements ?sv)) =
      Inr (map (\<lambda>e. dget (obj_fields e) ''name'' (JStr [])) (take 10 (elements ?sv)))"
    by (rule skills_loop)
  have "profile_of_response L u d =
      Inr (JObj
        [(''name'', JStr (py_str L (dget (obj_fields ?p) ''firstName'' (JStr []))
                     @ '' '' @ py_str L (dget (obj_fields ?p) ''lastName'' (JStr [])))),
         (''headline'', dget (obj_fields ?p) ''headline'' (JStr [])),
         (''summary'', dget (obj_fields ?p) ''summary'' (JStr [])),
         (''location'', dget (obj_fields ?p) ''locationName'' (JStr [])),
         (''industry'', dget (obj_fields ?p) ''industryName'' (JStr [])),
         (''profile_url'', JStr (''https://www.linkedin.com/in/'' @ u)),
         (''experience'', JArr ex),
         (''education'', JArr ed),
         (''skills'', JArr (map (\<lambda>e. dget (obj_fields e) ''name'' (JStr []))
                             (take 10 (elements ?sv))))])"
    by (simp add: profile_of_response_def py_get_obj [OF 1] py_get_obj [OF 2] g1 f1 g2 f2 g3 f3
        slice_upto_def)
  then show ?thesis
    using r1 r2 by (auto simp: view_elements_def)
qed

text \<open>What a normalizer has returned when it has returned: the shape of the document only
  decides whether it raises.\<close>

lemma bind_eq_Inr: "bind m f = Inr r \<longleftrightarrow> (\<exists>v. m = Inr v \<and> f v = Inr r)"
  by (cases m) auto

lemma py_get_Inr: "py_get d k dflt = Inr v \<Longrightarrow> is_obj d \<and> v = dget (obj_fields d) k dflt"
  by (cases d) (auto simp: dget_def split: option.splits)

lemma jobs_of_response_returns:
  assumes "jobs_of_response L d = Inr r"
  shows "\<exists>es js. py_iter (dget (obj_fields d) ''elements'' (JArr [])) = Inr es
           \<and> r = JObj [(''count'', JInt (int (length es))), (''jobs'', JArr js)]
           \<and> length js = length es
           \<and> list_all2 (\<lambda>e j. job_hit L e = Inr j) es js"
proof -
  from assms obtain el es js where g: "py_get d ''elements'' (JArr []) = Inr el"
    and i: "py_iter el = Inr es" and f: "for_each (job_hit L) es = Inr js"
    and r: "r = JObj [(''count'', JInt (int (length js))), (''jobs'', JArr js)]"
    by (auto simp: jobs_of_response_def bind_eq_Inr)
  have el: "el = dget (obj_fields d) ''elements'' (JArr [])" using py_get_Inr [OF g] by simp
  have rel: "list_all2 (\<lambda>e j. job_hit L e = Inr j) es js" using f by (simp add: for_each_iff)
  show ?thesis
    using i r rel list_all2_lengthD [OF rel] unfolding el by auto
qed

lemma py_slice_iter_length:
  assumes "py_slice L v (JInt n) = Inr shown" and "py_iter shown = Inr xs" and "0 \<le> n"
  shows "length xs \<le> nat n"
  using assms by (cases v) (auto simp: slice_upto_def split: if_splits)

lemma profile_of_response_skills:
  assumes "profile_of_response L u d = Inr r"
  shows "\<exists>names. map_of (obj_fields r) ''skills'' = Some (JArr names) \<and> length names \<le> 10"
proof -
  from assms obtain sk shown sks names rest where s: "py_slice L sk (JInt 10) = Inr shown"
    and i: "py_iter shown = Inr sks" and f: "for_each skill_of sks = Inr names"
    and r: "map_of (obj_fields r) ''skills'' = Some (JArr names)"
    unfolding profile_of_response_def bind_eq_Inr by fastforce
  have "length sks \<le> nat 10" using s i by (rule py_slice_iter_length) simp
  moreover have "length names = length sks"
    using f by (simp add: for_each_iff list_all2_lengthD)
  ultimately show ?thesis using r by auto
qed

lemma profiles_of_response_returns:
  assumes "profiles_of_response L d = Inr r"
  shows "\<exists>es rs. py_iter (dget (obj_fields d) ''elements'' (JArr [])) = Inr es
           \<and> r = JObj [(''count'', JInt (int (length es))), (''results'', JArr rs)]
           \<and> length rs = length es
           \<and> list_all2 (\<lambda>e j. profile_hit L e = Inr j) es rs"
proof -
  from assms obtain el es rs where g: "py_get d ''elements'' (JArr []) = Inr el"
    and i: "py_iter el = Inr es" and f: "for_each (profile_hit L) es = Inr rs"
    and r: "r = JObj [(''count'', JInt (int (length rs))), (''results'', JArr rs)]"
    by (auto simp: profiles_of_response_def bind_eq_Inr)
  have el: "el = dget (obj_fields d) ''elements'' (JArr [])" using py_get_Inr [OF g] by simp
  have rel: "list_all2 (\<lambda>e j. profile_hit L e = Inr j) es rs" using f by (simp add: for_each_iff)
  show ?thesis
    using i r rel list_all2_lengthD [OF rel] unfolding el by auto
qed

lemma connections_of_response_returns:
  assumes "connections_of_response L d = Inr r"
  shows "\<exists>es cs. py_iter (dget (obj_fields d) ''elements'' (JArr [])) = Inr es
           \<and> r = JObj [(''count'', JInt (int (length es))), (''connections'', JArr cs)]
           \<and> length cs = length es
           \<and> list_all2 (\<lambda>e j. connection_of L e = Inr j) es cs"
proof -
  from assms obtain el es cs where g: "py_get d ''elements'' (JArr []) = Inr el"
    and i: "py_iter el = Inr es" and f: "for_each (connection_of L) es = Inr cs"
    and r: "r = JObj [(''count'', JInt (int (length cs))), (''connections'', JArr cs)]"
    by (auto simp: connections_of_response_def bind_eq_Inr)
  have el: "el = dget (obj_fields d) ''elements'' (JArr [])" using py_get_Inr [OF g] by simp
  have rel: "list_all2 (\<lambda>e j. connection_of L e = Inr j) es cs" using f by (simp add: for_each_iff)
  show ?thesis
    using i r rel list_all2_lengthD [OF rel] unfolding el by auto
qed

lemma feed_of_response_returns:
  assumes "feed_of_response L d (JInt n) = Inr r" and "0 \<le> n"
  shows "\<exists>ps. r = JObj [(''count'', JInt (int (length ps))), (''posts'', JArr ps)]
           \<and> int (length ps) \<le> n"
proof -
  from assms(1) obtain el shown es ps where s: "py_slice L el (JInt n) = Inr shown"
    and i: "py_iter shown = Inr es" and f: "for_each feed_post es = Inr ps"
    and r: "r = JObj [(''count'', JInt (int (length ps))), (''posts'', JArr ps)]"
    by (auto simp: feed_of_response_def bind_eq_Inr)
  have "length es \<le> nat n" using s i assms(2) by (rule py_slice_iter_length)
  moreover have "length ps = length es"
    using f by (simp add: for_each_iff list_all2_lengthD)
  ultimately show ?thesis using r assms(2) by auto
qed

text \<open>No normalizer raises the \<^verbatim>\<open>KeyError\<close> of a string key: every subscript with a string
  stands behind a membership test, and \<^verbatim>\<open>.get\<close> has a default.\<close>

lemma bind_eq_Inl: "bind m f = Inl e \<longleftrightarrow> m = Inl e \<or> (\<exists>v. m = Inr v \<and> f v = Inl e)"
  by (cases m) auto

lemma py_get_not_KeyError: "py_get d k dflt \<noteq> Inl (KeyError (StrKey k'))"
  by (cases d) (auto split: option.splits)

lemma py_iter_not_KeyError: "py_iter v \<noteq> Inl (KeyError (StrKey k'))"
  by (cases v) auto

lemma py_contains_not_KeyError: "py_contains k v \<noteq> Inl (KeyError (StrKey k'))"
  by (cases v) auto

lemma py_slice_not_KeyError: "py_slice L v limit \<noteq> Inl (KeyError (StrKey k'))"
  by (cases v; cases limit) auto

lemma py_getitem_after_contains:
  "py_contains k v = Inr True \<Longrightarrow> py_getitem v k \<noteq> Inl (KeyError (StrKey k'))"
  by (cases v) (auto split: option.splits)

lemma for_each_Inl: "for_each f xs = Inl e \<Longrightarrow> \<exists>x \<in> set xs. f x = Inl e"
  by (induction xs) (auto simp: bind_eq_Inl)

lemmas not_KeyError = py_get_not_KeyError py_iter_not_KeyError py_contains_not_KeyError
  py_slice_not_KeyError py_getitem_after_contains

lemma add_date_not_KeyError: "add_date L tp src dst e \<noteq> Inl (KeyError (StrKey k))"
  by (auto simp: add_date_def bind_eq_Inl not_KeyError split: if_splits)

lemma experience_of_not_KeyError: "experience_of L pos \<noteq> Inl (KeyError (StrKey k))"
  by (auto simp: experience_of_def bind_eq_Inl not_KeyError add_date_not_KeyError split: if_splits)

lemma education_of_not_KeyError: "education_of s \<noteq> Inl (KeyError (StrKey k))"
  by (auto simp: education_of_def bind_eq_Inl not_KeyError)

lemma skill_of_not_KeyError: "skill_of s \<noteq> Inl (KeyError (StrKey k))"
  by (auto simp: skill_of_def not_KeyError)

lemma profile_of_response_not_KeyError: "profile_of_response L u d \<noteq> Inl (KeyError (StrKey k))"
  by (auto simp: profile_of_response_def bind_eq_Inl not_KeyError
      experience_of_not_KeyError education_of_not_KeyError skill_of_not_KeyError
      dest!: for_each_Inl)

lemma basic_profile_not_KeyError: "basic_profile L d \<noteq> Inl (KeyError (StrKey k))"
  by (auto simp: basic_profile_def bind_eq_Inl not_KeyError)

lemma profile_hit_not_KeyError: "profile_hit L e \<noteq> Inl (KeyError (StrKey k))"
  by (auto simp: profile_hit_def bind_eq_Inl not_KeyError)

lemma job_hit_not_KeyError: "job_hit L e \<noteq> Inl (KeyError (StrKey k))"
  by (auto simp: job_hit_def bind_eq_Inl not_KeyError)

lemma connection_of_not_KeyError: "connection_of L e \<noteq> Inl (KeyError (StrKey k))"
  by (auto simp: connection_of_def bind_eq_Inl not_KeyError)

lemma feed_post_not_KeyError: "feed_post e \<noteq> Inl (KeyError (StrKey k))"
  by (auto simp: feed_post_def bind_eq_Inl not_KeyError split: if_splits)

lemma profiles_of_response_not_KeyError: "profiles_of_response L d \<noteq> Inl (KeyError (StrKey k))"
  by (auto simp: profiles_of_response_def bind_eq_Inl not_KeyError profile_hit_not_KeyError
      dest!: for_each_Inl)

lemma jobs_of_response_not_KeyError: "jobs_of_response L d \<noteq> Inl (KeyError (StrKey k))"
  by (auto simp: jobs_of_response_def bind_eq_Inl not_KeyError job_hit_not_KeyError
      dest!: for_each_Inl)

lemma connections_of_response_not_KeyError: "connections_of_response L d \<noteq> Inl (KeyError (StrKey k))"
  by (auto simp: connections_of_response_def bind_eq_Inl not_KeyError connection_of_not_KeyError
      dest!: for_each_Inl)

lemma feed_of_response_not_KeyError: "feed_of_response L d limit \<noteq> Inl (KeyError (StrKey k))"
  by (auto simp: feed_of_response_def bind_eq_Inl not_KeyError feed_post_not_KeyError
      dest!: for_each_Inl)

text \<open>The record of a job hit, field by field, whenever the loop body returns.\<close>

lemma job_hit_returns:
  assumes "job_hit L e = Inr j"
  shows "j = JObj
       [(''title'', dget (posting e) ''title'' (JStr [])),
        (''company'', dget (posting e) ''companyName'' (JStr [])),
        (''location'', dget (posting e) ''formattedLocation'' (JStr [])),
        (''job_url'', JStr (''https://www.linkedin.com/jobs/view/'' @
                            py_str L (dget (posting e) ''jobPostingId'' (JStr [])))),
        (''posted'', dget (posting e) ''listedAt'' (JStr []))]"
  using assms
  by (auto simp: job_hit_def bind_eq_Inr posting_def dest!: py_get_Inr)

lemma job_hit_shaped_record:
  assumes "nested [''hitInfo'', ''*jobPosting''] e"
  shows "job_hit L e = Inr (JObj
       [(''title'', dget (posting e) ''title'' (JStr [])),
        (''company'', dget (posting e) ''companyName'' (JStr [])),
        (''location'', dget (posting e) ''formattedLocation'' (JStr [])),
        (''job_url'', JStr (''https://www.linkedin.com/jobs/view/'' @
                            py_str L (dget (posting e) ''jobPostingId'' (JStr [])))),
        (''posted'', dget (posting e) ''listedAt'' (JStr []))])"
proof -
  obtain j where j: "job_hit L e = Inr j" using job_hit_shaped [OF assms] by blast
  show ?thesis using job_hit_returns [OF j] j by simp
qed

lemma list_all2_function: "list_all2 (\<lambda>x y. y = f x) xs ys \<Longrightarrow> ys = map f xs"
  by (induction xs ys rule: list_all2_induct) auto

lemma jobs_of_response_records:
  assumes "jobs_of_response L d = Inr r"
  shows "\<exists>es. py_iter (dget (obj_fields d) ''elements'' (JArr [])) = Inr es
           \<and> r = JObj [(''count'', JInt (int (length es))),
                       (''jobs'', JArr (map (\<lambda>e. JObj
       [(''title'', dget (posting e) ''title'' (JStr [])),
        (''company'', dget (posting e) ''companyName'' (JStr [])),
        (''location'', dget (posting e) ''formattedLocation'' (JStr [])),
        (''job_url'', JStr (''https://www.linkedin.com/jobs/view/'' @
                            py_str L (dget (posting e) ''jobPostingId'' (JStr [])))),
        (''posted'', dget (posting e) ''listedAt'' (JStr []))]) es))]"
proof -
  obtain es js where i: "py_iter (dget (obj_fields d) ''elements'' (JArr [])) = Inr es"
    and r: "r = JObj [(''count'', JInt (int (length es))), (''jobs'', JArr js)]"
    and rel: "list_all2 (\<lambda>e j. job_hit L e = Inr j) es js"
    using jobs_of_response_returns [OF assms] by blast
  have "list_all2 (\<lambda>e j. j = JObj
       [(''title'', dget (posting e) ''title'' (JStr [])),
        (''company'', dget (posting e) ''companyName'' (JStr [])),
        (''location'', dget (posting e) ''formattedLocation'' (JStr [])),
        (''job_url'', JStr (''https://www.linkedin.com/jobs/view/'' @
                            py_str L (dget (posting e) ''jobPostingId'' (JStr [])))),
        (''posted'', dget (posting e) ''listedAt'' (JStr []))]) es js"
    using rel by (rule list_all2_mono) (rule job_hit_returns)
  then have "js = map (\<lambda>e. JObj
       [(''title'', dget (posting e) ''title'' (JStr [])),
        (''company'', dget (posting e) ''companyName'' (JStr [])),
        (''location'', dget (posting e) ''formattedLocation'' (JStr [])),
        (''job_url'', JStr (''https://www.linkedin.com/jobs/view/'' @
                            py_str L (dget (posting e) ''jobPostingId'' (JStr [])))),
        (''posted'', dget (posting e) ''listedAt'' (JStr []))]) es"
    by (rule list_all2_function)
  with i r show ?thesis by blast
qed

lemma elements_ok_iter:
  assumes "elements_ok Q d"
  shows "py_iter (dget (obj_fields d) ''elements'' (JArr [])) = Inr (elements d)"
  using assms
  by (cases d) (auto simp: elements_def dget_def split: option.splits json.splits)

lemma basic_profile_total: "is_obj d \<Longrightarrow> \<exists>r. basic_profile L d = Inr r"
  by (simp add: basic_profile_def py_get_obj)

text \<open>The own-profile lookup: two requests, the second for the username the first
  document gives.\<close>

lemma split_on_nonempty: "split_on c s \<noteq> []"
  by (induction s) (auto split: list.splits)

lemma extract_username_str: "\<exists>u. extract_username (JStr s) = Inr u"
proof -
  obtain seg where seg: "py_last (split_on CHR ''/'' s) = Inr seg"
    using split_on_nonempty [of "CHR ''/''" s]
    by (cases "rev (split_on CHR ''/'' s)") (auto simp: py_last_def)
  obtain u where u: "py_first (split_on CHR ''?'' seg) = Inr u"
    using split_on_nonempty [of "CHR ''?''" seg]
    by (cases "split_on CHR ''?'' seg") (auto simp: py_first_def)
  show ?thesis using seg u by simp
qed

lemma extract_username_error:
  assumes "extract_username v = Inl e"
  shows "e = AttributeError (type_name v) ''split''"
proof (cases v)
  case (JStr s)
  then show ?thesis using assms extract_username_str [of s] by auto
qed (use assms in auto)

lemma profile_url_not_me:
  "''https://www.linkedin.com/voyager/api/identity/profiles/'' @ u @ ''/profileView'' \<noteq>
   ''https://www.linkedin.com/voyager/api/me''"
  by simp

lemma get_profile_by_url_total:
  assumes net: "\<And>c h r. \<exists>d. net c h r = Inr d
      \<and> (if url r = ''https://www.linkedin.com/voyager/api/me'' then me_shape d else profile_shape d)"
  shows "\<exists>r. fst (get_profile_by_url L net st (JStr s)) = Inr (JObj r)"
proof -
  obtain u where u: "extract_username (JStr s) = Inr u" using extract_username_str by blast
  let ?req = "\<lparr>url = ''https://www.linkedin.com/voyager/api/identity/profiles/'' @ u @ ''/profileView'',
               params = []\<rparr>"
  have shaped: "\<exists>d. net c h ?req = Inr d \<and> profile_shape d" for c h
    using net [of c h ?req] profile_url_not_me [of u] by auto
  have "\<exists>r. bind (case net c h ?req of Inl m \<Rightarrow> Inl (UpstreamError m) | Inr d \<Rightarrow> Inr d)
              (profile_of_response L u) = Inr (JObj r)" for c h
  proof -
    obtain d where d: "net c h ?req = Inr d" "profile_shape d" using shaped by blast
    obtain r where "profile_of_response L u d = Inr (JObj r)"
      using profile_of_response_shaped [OF d(2), of L u] by blast
    then show ?thesis using d(1) by auto
  qed
  then show ?thesis
    using u
    by (auto simp: get_profile_by_url_def get_http_client_def client_get_def Let_def
        split: option.splits)
qed

lemma get_my_profile_total:
  assumes net: "\<And>c h r. \<exists>d. net c h r = Inr d
      \<and> (if url r = ''https://www.linkedin.com/voyager/api/me'' then me_shape d else profile_shape d)"
  shows "\<exists>r. fst (get_my_profile L net st) = Inr r"
proof -
  let ?req = "\<lparr>url = ''https://www.linkedin.com/voyager/api/me'', params = []\<rparr>"
  obtain c st1 where c: "get_http_client st = (c, st1)" by (cases "get_http_client st")
  obtain d where d: "net c (calls st1) ?req = Inr d" and m: "me_shape d"
    using net [of c "calls st1" ?req] by auto
  have o: "is_obj d" using m by (simp add: me_shape_def)
  obtain profile where p: "basic_profile L d = Inr profile"
    using basic_profile_total [OF o] by blast
  let ?u = "dget (obj_fields d) ''publicIdentifier'' JNull"
  let ?st2 = "st1\<lparr>calls := calls st1 @ [?req]\<rparr>"
  have g: "py_get d ''publicIdentifier'' JNull = Inr ?u" using o by (rule py_get_obj)
  show ?thesis
  proof (cases "truthy ?u")
    case False
    then show ?thesis
      using c d p g by (simp add: get_my_profile_def client_get_def)
  next
    case True
    then have "is_str ?u"
      using m by (auto simp: me_shape_def dget_def split: option.splits)
    then obtain s where s: "?u = JStr s" by (cases ?u) auto
    have "\<exists>r. fst (get_profile_by_url L net ?st2 (JStr s)) = Inr (JObj r)"
      by (rule get_profile_by_url_total) (rule net)
    then obtain r st3 where r: "get_profile_by_url L net ?st2 (JStr s) = (Inr (JObj r), st3)"
      by (cases "get_profile_by_url L net ?st2 (JStr s)") auto
    show ?thesis
      using c d p g True s r
      by (simp add: get_my_profile_def client_get_def)
  qed
qed

lemma get_profile_by_url_not_KeyError:
  "fst (get_profile_by_url L net st v) \<noteq> Inl (KeyError (StrKey k))"
  by (auto simp: get_profile_by_url_def get_http_client_def client_get_def Let_def bind_eq_Inl
      profile_of_response_not_KeyError
      split: option.splits sum.splits prod.splits dest!: extract_username_error)

lemma py_update_not_KeyError: "py_update p v \<noteq> Inl (KeyError (StrKey k))"
  by (cases v) auto

lemma get_my_profile_not_KeyError:
  "fst (get_my_profile L net st) \<noteq> Inl (KeyError (StrKey k))"
proof -
  have "bind x (py_update p) \<noteq> Inl (KeyError (StrKey k))"
    if "get_profile_by_url L net st' v = (x, st'')" for st' st'' v p x
    using get_profile_by_url_not_KeyError [of L net st' v k] py_update_not_KeyError that
    by (auto simp: bind_eq_Inl)
  then show ?thesis
    by (auto simp: get_my_profile_def get_http_client_def client_get_def Let_def
        basic_profile_not_KeyError py_get_not_KeyError
        split: option.splits sum.splits prod.splits)
qed

section \<open>The catalog (C1)\<close>

text \<open>
  C1, as stated, says the catalog has exactly five entries. The list \<^verbatim>\<open>list_tools\<close> returns
  does not have five entries.
\<close>

theorem list_tools_not_five: "length list_tools \<noteq> 5"
  by (simp add: list_tools_def)

text \<open>
  C1, amended: \<^verbatim>\<open>list_tools\<close> returns a fixed list (a literal that reads nothing of the
  server, so every call gives the same entries in the same order) of exactly six entries,
  each with a name, a description and an input schema; the names are distinct and come in
  the order below (the own-profile and the by-URL lookup are two tools), and the declared
  type of every parameter of every schema is \<^verbatim>\<open>string\<close> or \<^verbatim>\<open>number\<close>.
\<close>

theorem list_tools_catalog:
  "length list_tools = 6
   \<and> map name list_tools =
       [''get_my_profile'', ''get_profile_by_url'', ''search_profiles'', ''search_jobs'',
        ''get_my_connections'', ''get_feed'']
   \<and> distinct (map name list_tools)
   \<and> map param_types list_tools =
       [[],
        [Some (JStr ''string'')],
        [Some (JStr ''string''), Some (JStr ''number'')],
        [Some (JStr ''string''), Some (JStr ''string''), Some (JStr ''number'')],
        [Some (JStr ''number'')],
        [Some (JStr ''number'')]]
   \<and> list_all (\<lambda>ty. ty = Some (JStr ''string'') \<or> ty = Some (JStr ''number''))
        (concat (map param_types list_tools))"
  by (simp add: list_tools_def param_types_def field_def)

section \<open>Missing credential (C2)\<close>

text \<open>
  C2: when the session cookie is absent (the variable unset, or set to the empty string),
  \<^verbatim>\<open>call_tool\<close> returns, for every tool name and every \<^verbatim>\<open>arguments\<close> value, the one text
  message that reports the missing variable, and the server is left as it was: no request
  has been added to the requests sent and no HTTP client has been created.
\<close>

theorem missing_cookie_no_call:
  assumes "cookie_missing st"
  shows "call_tool L net st nm arguments =
           ([TextContent ''text''
               ''Error: LINKEDIN_SESSION_COOKIE environment variable not set. Please configure your LinkedIn session cookie.''],
            st)
         \<and> calls (snd (call_tool L net st nm arguments)) = calls st
         \<and> session (snd (call_tool L net st nm arguments)) = session st"
  using assms by (simp add: call_tool_def)

text \<open>C2 at a server without the variable, asked for the feed.\<close>

theorem missing_cookie_no_call_witness:
  "cookie_missing \<lparr>li_at_cookie = None, session = None, calls = []\<rparr>
   \<and> (\<forall>L net. call_tool L net \<lparr>li_at_cookie = None, session = None, calls = []\<rparr> ''get_feed'' (JObj [(''limit'', JInt 3)]) =
        ([TextContent ''text''
            ''Error: LINKEDIN_SESSION_COOKIE environment variable not set. Please configure your LinkedIn session cookie.''],
         \<lparr>li_at_cookie = None, session = None, calls = []\<rparr>))
   \<and> (\<forall>L net. calls (snd (call_tool L net \<lparr>li_at_cookie = None, session = None, calls = []\<rparr> ''get_feed'' (JObj [(''limit'', JInt 3)]))) = [])"
proof -
  have h: "cookie_missing \<lparr>li_at_cookie = None, session = None, calls = []\<rparr>"
    by (simp add: cookie_missing_def)
  show ?thesis
    using h missing_cookie_no_call [OF h, of _ _ "''get_feed''" "JObj [(''limit'', JInt 3)]"]
    by simp
qed

section \<open>Unknown tool (C3)\<close>

lemma dispatch_unknown:
  assumes "nm \<notin> set (map name list_tools)"
  shows "dispatch L net st nm arguments = (Inr (JStr (''Unknown tool: '' @ nm)), st)"
  using assms by (simp add: dispatch_def list_tools_def)

text \<open>
  C3, amended: with the cookie present, a call whose name is none of the six catalog names
  sends no request and returns a single text message through the success path: the JSON
  encoding of the string \<^verbatim>\<open>Unknown tool: <name>\<close>. That text begins with a double quote,
  not with \<^verbatim>\<open>Error: \<close>, and carries no hint about the cookie.
\<close>

theorem unknown_tool_reply:
  assumes "\<not> cookie_missing st" and "nm \<notin> set (map name list_tools)"
  shows "call_tool L net st nm arguments =
           ([TextContent ''text''
              (CHR 0x22 # concat (map escape_char (''Unknown tool: '' @ nm)) @ [CHR 0x22])], st)
         \<and> \<not> is_prefix ''Error: ''
              (CHR 0x22 # concat (map escape_char (''Unknown tool: '' @ nm)) @ [CHR 0x22])"
  using assms by (simp add: call_tool_def dispatch_unknown)

text \<open>
  C3, as stated, says the reply to a name outside the catalog begins with \<^verbatim>\<open>Error: \<close>.
  For the name \<^verbatim>\<open>foo\<close> the reply is the text \<^verbatim>\<open>"Unknown tool: foo"\<close>, quotes included.
\<close>

theorem unknown_tool_not_error:
  "''foo'' \<notin> set (map name list_tools)
   \<and> (\<forall>L net. call_tool L net \<lparr>li_at_cookie = Some ''AQEDAT'', session = None, calls = []\<rparr> ''foo'' (JObj []) =
        ([TextContent ''text'' (CHR 0x22 # ''Unknown tool: foo'' @ [CHR 0x22])],
         \<lparr>li_at_cookie = Some ''AQEDAT'', session = None, calls = []\<rparr>))
   \<and> \<not> is_prefix ''Error: '' (CHR 0x22 # ''Unknown tool: foo'' @ [CHR 0x22])"
  by (simp add: call_tool_def dispatch_def list_tools_def cookie_missing_def escape_char_def)

text \<open>C3 (amended) at the name \<^verbatim>\<open>delete_post\<close>.\<close>

theorem unknown_tool_reply_witness:
  "\<not> cookie_missing \<lparr>li_at_cookie = Some ''AQEDAT'', session = None, calls = []\<rparr>
   \<and> ''delete_post'' \<notin> set (map name list_tools)
   \<and> (\<forall>L net. call_tool L net \<lparr>li_at_cookie = Some ''AQEDAT'', session = None, calls = []\<rparr> ''delete_post'' JNull =
        ([TextContent ''text'' (CHR 0x22 # ''Unknown tool: delete_post'' @ [CHR 0x22])],
         \<lparr>li_at_cookie = Some ''AQEDAT'', session = None, calls = []\<rparr>))"
proof -
  have h1: "\<not> cookie_missing \<lparr>li_at_cookie = Some ''AQEDAT'', session = None, calls = []\<rparr>"
    by (simp add: cookie_missing_def)
  have h2: "''delete_post'' \<notin> set (map name list_tools)"
    by (simp add: list_tools_def)
  show ?thesis
    using h1 h2 unknown_tool_reply [OF h1 h2, of _ _ JNull]
    by (simp add: escape_char_def)
qed

section \<open>Missing required argument (C4)\<close>

text \<open>
  C4: for every tool of the catalog and every parameter its schema lists as required, a
  call (with the cookie present) whose \<^verbatim>\<open>arguments\<close> mapping lacks that parameter returns
  a failure as a value, not an exception: the single text message \<^verbatim>\<open>Error: '<parameter>'\<close>
  followed by the cookie hint (the \<^verbatim>\<open>KeyError\<close> of the subscript, caught at line 161). The
  server is unchanged, so nothing was sent.
\<close>

theorem missing_required_argument:
  assumes "t \<in> set list_tools" and "k \<in> set (required_params t)"
    and "\<not> cookie_missing st" and "map_of kvs k = None"
  shows "call_tool L net st (name t) (JObj kvs) =
           ([TextContent ''text'' (''Error: '' @ [CHR 0x27] @ k @ [CHR 0x27] @ cookie_hint)], st)"
  using assms
  by (auto simp: list_tools_def required_params_def field_def call_tool_def dispatch_def)

text \<open>C4 at \<^verbatim>\<open>search_jobs\<close> called without \<^verbatim>\<open>keywords\<close>.\<close>

theorem missing_required_argument_witness:
  "list_tools ! 3 \<in> set list_tools
   \<and> ''keywords'' \<in> set (required_params (list_tools ! 3))
   \<and> \<not> cookie_missing \<lparr>li_at_cookie = Some ''AQEDAT'', session = None, calls = []\<rparr>
   \<and> map_of [(''location'', JStr ''Remote''), (''limit'', JInt 5)] ''keywords'' = None
   \<and> (\<forall>L net. call_tool L net \<lparr>li_at_cookie = Some ''AQEDAT'', session = None, calls = []\<rparr> ''search_jobs''
          (JObj [(''location'', JStr ''Remote''), (''limit'', JInt 5)]) =
        ([TextContent ''text'' (''Error: '' @ [CHR 0x27] @ ''keywords'' @ [CHR 0x27] @ cookie_hint)],
         \<lparr>li_at_cookie = Some ''AQEDAT'', session = None, calls = []\<rparr>))"
proof -
  have h1: "list_tools ! 3 \<in> set list_tools" by (simp add: list_tools_def)
  have h2: "''keywords'' \<in> set (required_params (list_tools ! 3))"
    by (simp add: list_tools_def required_params_def field_def)
  have h3: "\<not> cookie_missing \<lparr>li_at_cookie = Some ''AQEDAT'', session = None, calls = []\<rparr>"
    by (simp add: cookie_missing_def)
  have h4: "map_of [(''location'', JStr ''Remote''), (''limit'', JInt 5)] ''keywords'' = None"
    by simp
  have n: "name (list_tools ! 3) = ''search_jobs''" by (simp add: list_tools_def)
  show ?thesis
    using h1 h2 h3 h4 missing_required_argument [OF h1 h2 h3 h4] n
    by simp
qed

section \<open>Totality of the normalizers (C5)\<close>

lemma slice_upto_take: "\<exists>m. slice_upto s xs = take m xs"
proof (cases s)
  case None
  then have "slice_upto s xs = take (length xs) xs" by (simp add: slice_upto_def)
  then show ?thesis by blast
next
  case (Some n)
  then show ?thesis by (auto simp: slice_upto_def)
qed

lemma list_all_take: "list_all P xs \<Longrightarrow> list_all P (take m xs)"
  by (auto simp: list_all_iff dest: in_set_takeD)

lemma feed_of_response_total:
  assumes ok: "feed_shape (length (elements d)) d" and stop: "slice_stop limit = Inr s"
  shows "\<exists>r. feed_of_response L d limit = Inr r"
proof -
  let ?P = "nested [''value'', update_v2, ''commentary'', ''text'']"
  let ?Q = "\<lambda>xs. list_all ?P (take (length (elements d)) xs)"
  have ok': "elements_ok ?Q d" using ok by (simp add: feed_shape_def)
  have get: "py_get d ''elements'' (JArr []) = Inr (JArr (elements d))"
    using ok' by (rule elements_ok_get)
  have "?Q (elements d)" using ok' by (rule elements_ok_Q) simp
  then have all: "list_all ?P (elements d)" by simp
  obtain m where m: "slice_upto s (elements d) = take m (elements d)"
    using slice_upto_take by blast
  have "list_all ?P (take m (elements d))" using all by (rule list_all_take)
  then obtain ps where "for_each feed_post (take m (elements d)) = Inr ps"
    using for_each_total [of ?P "take m (elements d)" feed_post] feed_post_shaped by blast
  then show ?thesis
    using get stop m by (simp add: feed_of_response_def)
qed

text \<open>
  C5, as stated, says every normalizer is total over any syntactically valid JSON object.
  A profile document whose \<^verbatim>\<open>profile\<close> field is \<^verbatim>\<open>null\<close> is such an object; the key is
  present, so \<^verbatim>\<open>data.get('profile', {})\<close> returns \<^verbatim>\<open>None\<close>, and the next \<^verbatim>\<open>.get\<close> raises.
\<close>

theorem profile_null_raises:
  "\<forall>L u. profile_of_response L u (JObj [(''profile'', JNull)]) = Inl (AttributeError ''NoneType'' ''get'')"
  by (simp add: profile_of_response_def)

text \<open>A value of another kind than the code reads can also raise a \<^verbatim>\<open>KeyError\<close>: where slice
  objects are hashable, slicing a dict (lines 273 and 384) looks the slice up as a key.\<close>

lemma dict_slice_raises:
  assumes "slices_hashable L"
  shows "feed_of_response L (JObj [(''elements'', JObj [])]) (JInt 10) =
           Inl (KeyError (SliceKey (JInt 10)))"
    and "profile_of_response L u (JObj [(''skillView'', JObj [(''elements'', JObj [])])]) =
           Inl (KeyError (SliceKey (JInt 10)))"
  using assms by (simp_all add: feed_of_response_def profile_of_response_def)

text \<open>
  C5, amended: every normalizer returns a record on every JSON object in which each field
  it descends into is, when present, of the kind it reads (an object where it calls
  \<^verbatim>\<open>.get\<close>, a list of such objects under \<^verbatim>\<open>elements\<close>); a key missing at any depth is
  replaced by its default and never raises. The feed normalizer does so for every limit
  that is \<^verbatim>\<open>null\<close>, a boolean or an integer. The own-profile lookup (lines 182 to 207, the
  minimal record and then the by-URL lookup of the \<^verbatim>\<open>publicIdentifier\<close>) does so when the
  upstream service answers its first request with an object whose \<^verbatim>\<open>publicIdentifier\<close>,
  when present, is a string (or a value \<^verbatim>\<open>if username:\<close> takes as false) and its second
  request with a profile document of the kind above. In particular a profile document
  that holds only \<^verbatim>\<open>firstName\<close> (inside \<^verbatim>\<open>profile\<close>, or at the top level, where it is not
  read) yields \<^verbatim>\<open>location\<close>, \<^verbatim>\<open>industry\<close> and \<^verbatim>\<open>summary\<close> as empty strings and
  \<^verbatim>\<open>experience\<close>, \<^verbatim>\<open>education\<close> and \<^verbatim>\<open>skills\<close> as empty lists. And on any document at all,
  no normalizer raises the \<^verbatim>\<open>KeyError\<close> of a missing key, that is, of a string key: when
  one raises, a value that is present is of another kind than the code reads.
\<close>

theorem normalizers_total_on_shaped_documents:
  "(profile_shape d \<longrightarrow> (\<exists>r. profile_of_response L u d = Inr r))
   \<and> (is_obj d \<longrightarrow> (\<exists>r. basic_profile L d = Inr r))
   \<and> (people_shape d \<longrightarrow> (\<exists>r. profiles_of_response L d = Inr r))
   \<and> (jobs_shape d \<longrightarrow> (\<exists>r. jobs_of_response L d = Inr r))
   \<and> (connections_shape d \<longrightarrow> (\<exists>r. connections_of_response L d = Inr r))
   \<and> (feed_shape (length (elements d)) d \<longrightarrow> \<not> isl (slice_stop limit) \<longrightarrow>
        (\<exists>r. feed_of_response L d limit = Inr r))
   \<and> ((\<forall>c h q. \<exists>a. net c h q = Inr a
          \<and> (if url q = ''https://www.linkedin.com/voyager/api/me'' then me_shape a
              else profile_shape a)) \<longrightarrow>
        (\<exists>r. fst (get_my_profile L net st) = Inr r))
   \<and> profile_of_response L u (JObj [(''profile'', JObj [(''firstName'', f)])]) =
        Inr (JObj
          [(''name'', JStr (py_str L f @ '' '')),
           (''headline'', JStr []),
           (''summary'', JStr []),
           (''location'', JStr []),
           (''industry'', JStr []),
           (''profile_url'', JStr (''https://www.linkedin.com/in/'' @ u)),
           (''experience'', JArr []),
           (''education'', JArr []),
           (''skills'', JArr [])])
   \<and> profile_of_response L u (JObj [(''firstName'', f)]) =
        Inr (JObj
          [(''name'', JStr '' ''),
           (''headline'', JStr []),
           (''summary'', JStr []),
           (''location'', JStr []),
           (''industry'', JStr []),
           (''profile_url'', JStr (''https://www.linkedin.com/in/'' @ u)),
           (''experience'', JArr []),
           (''education'', JArr []),
           (''skills'', JArr [])])
   \<and> profile_of_response L u d \<noteq> Inl (KeyError (StrKey k))
   \<and> basic_profile L d \<noteq> Inl (KeyError (StrKey k))
   \<and> profiles_of_response L d \<noteq> Inl (KeyError (StrKey k))
   \<and> jobs_of_response L d \<noteq> Inl (KeyError (StrKey k))
   \<and> connections_of_response L d \<noteq> Inl (KeyError (StrKey k))
   \<and> feed_of_response L d limit \<noteq> Inl (KeyError (StrKey k))
   \<and> fst (get_my_profile L net st) \<noteq> Inl (KeyError (StrKey k))"
proof -
  have a: "profile_shape d \<longrightarrow> (\<exists>r. profile_of_response L u d = Inr r)"
    using profile_of_response_shaped [of d L u] by blast
  have b: "is_obj d \<longrightarrow> (\<exists>r. basic_profile L d = Inr r)"
    using basic_profile_total by blast
  have c: "people_shape d \<longrightarrow> (\<exists>r. profiles_of_response L d = Inr r)"
    using profiles_of_response_shaped [of d L] by blast
  have e: "jobs_shape d \<longrightarrow> (\<exists>r. jobs_of_response L d = Inr r)"
    using jobs_of_response_shaped [of d L] by blast
  have g: "connections_shape d \<longrightarrow> (\<exists>r. connections_of_response L d = Inr r)"
    using connections_of_response_shaped [of d L] by blast
  have h: "feed_shape (length (elements d)) d \<longrightarrow> \<not> isl (slice_stop limit) \<longrightarrow>
        (\<exists>r. feed_of_response L d limit = Inr r)"
  proof (intro impI)
    assume ok: "feed_shape (length (elements d)) d" and "\<not> isl (slice_stop limit)"
    then obtain s where "slice_stop limit = Inr s" by (cases "slice_stop limit") auto
    with ok show "\<exists>r. feed_of_response L d limit = Inr r" by (rule feed_of_response_total)
  qed
  have m: "(\<forall>c h q. \<exists>a. net c h q = Inr a
          \<and> (if url q = ''https://www.linkedin.com/voyager/api/me'' then me_shape a
              else profile_shape a)) \<longrightarrow>
        (\<exists>r. fst (get_my_profile L net st) = Inr r)"
  proof
    assume "\<forall>c h q. \<exists>a. net c h q = Inr a
          \<and> (if url q = ''https://www.linkedin.com/voyager/api/me'' then me_shape a
              else profile_shape a)"
    then have "\<And>c h q. \<exists>a. net c h q = Inr a
          \<and> (if url q = ''https://www.linkedin.com/voyager/api/me'' then me_shape a
              else profile_shape a)"
      by blast
    then show "\<exists>r. fst (get_my_profile L net st) = Inr r" by (rule get_my_profile_total)
  qed
  have i: "profile_of_response L u (JObj [(''profile'', JObj [(''firstName'', f)])]) =
        Inr (JObj
          [(''name'', JStr (py_str L f @ '' '')),
           (''headline'', JStr []),
           (''summary'', JStr []),
           (''location'', JStr []),
           (''industry'', JStr []),
           (''profile_url'', JStr (''https://www.linkedin.com/in/'' @ u)),
           (''experience'', JArr []),
           (''education'', JArr []),
           (''skills'', JArr [])])"
    by (simp add: profile_of_response_def slice_upto_def)
  have j: "profile_of_response L u (JObj [(''firstName'', f)]) =
        Inr (JObj
          [(''name'', JStr '' ''),
           (''headline'', JStr []),
           (''summary'', JStr []),
           (''location'', JStr []),
           (''industry'', JStr []),
           (''profile_url'', JStr (''https://www.linkedin.com/in/'' @ u)),
           (''experience'', JArr []),
           (''education'', JArr []),
           (''skills'', JArr [])])"
    by (simp add: profile_of_response_def slice_upto_def)
  from a b c e g h m i j show ?thesis
    by (intro conjI profile_of_response_not_KeyError basic_profile_not_KeyError
        profiles_of_response_not_KeyError jobs_of_response_not_KeyError
        connections_of_response_not_KeyError feed_of_response_not_KeyError
        get_my_profile_not_KeyError)
qed

text \<open>C5 (amended) at the sample documents, with the limit 2 for the feed, and for the
  own-profile lookup an upstream service that answers the first request with the sample
  identity document and any other with the sample profile.\<close>

theorem normalizers_total_on_shaped_documents_witness:
  "profile_shape sample_profile
   \<and> (\<forall>L. \<exists>r. profile_of_response L ''ada'' sample_profile = Inr r)
   \<and> is_obj sample_hits
   \<and> (\<forall>L. \<exists>r. basic_profile L sample_hits = Inr r)
   \<and> people_shape sample_hits
   \<and> (\<forall>L. \<exists>r. profiles_of_response L sample_hits = Inr r)
   \<and> jobs_shape sample_hits
   \<and> (\<forall>L. \<exists>r. jobs_of_response L sample_hits = Inr r)
   \<and> connections_shape sample_hits
   \<and> (\<forall>L. \<exists>r. connections_of_response L sample_hits = Inr r)
   \<and> feed_shape (length (elements sample_hits)) sample_hits
   \<and> \<not> isl (slice_stop (JInt 2))
   \<and> (\<forall>L. \<exists>r. feed_of_response L sample_hits (JInt 2) = Inr r)
   \<and> me_shape sample_me
   \<and> (\<forall>L. \<exists>r. fst (get_my_profile L
           (\<lambda>c h q. Inr (if url q = ''https://www.linkedin.com/voyager/api/me''
                              then sample_me else sample_profile))
           sample_server) = Inr r)"
proof -
  let ?net = "\<lambda>(c :: client) (h :: request list) q.
      (Inr (if url q = ''https://www.linkedin.com/voyager/api/me'' then sample_me else sample_profile)
        :: string + json)"
  have ms: "me_shape sample_me" by (simp add: me_shape_def sample_me_def)
  have p: "profile_shape sample_profile"
    by (simp add: profile_shape_def sample_profile_def view_ok_def position_shape_def)
  have o: "is_obj sample_hits" by (simp add: sample_hits_def)
  have s: "people_shape sample_hits"
    by (simp add: people_shape_def sample_hits_def update_v2_def)
  have j: "jobs_shape sample_hits"
    by (simp add: jobs_shape_def sample_hits_def update_v2_def)
  have c: "connections_shape sample_hits"
    by (simp add: connections_shape_def sample_hits_def update_v2_def)
  have f: "feed_shape (length (elements sample_hits)) sample_hits"
    by (simp add: feed_shape_def sample_hits_def update_v2_def elements_def dget_def)
  have i: "\<not> isl (slice_stop (JInt 2))" by simp
  have n: "\<forall>c h q. \<exists>a. ?net c h q = Inr a
          \<and> (if url q = ''https://www.linkedin.com/voyager/api/me'' then me_shape a
              else profile_shape a)"
    using ms p by auto
  have w: "\<exists>r. fst (get_my_profile L ?net sample_server) = Inr r" for L
    using n normalizers_total_on_shaped_documents
      [where d = sample_profile and L = L and net = ?net and st = sample_server]
    by blast
  show ?thesis
    using p o s j c f i ms w
      normalizers_total_on_shaped_documents [where d = sample_profile and u = "''ada''" and limit = "JInt 2"]
      normalizers_total_on_shaped_documents [where d = sample_hits and u = "''ada''" and limit = "JInt 2"]
    by blast
qed

section \<open>The feed limit (C6)\<close>

text \<open>
  C6, as stated, says the feed normalizer never returns more posts than the requested
  limit. The limit is used as the stop of a slice (line 384), and a negative stop counts
  from the end: with three upstream elements and the limit \<open>-1\<close>, two posts come back.
\<close>

theorem feed_negative_limit:
  "(\<forall>L. feed_of_response L (JObj [(''elements'', JArr [JObj [], JObj [], JObj []])]) (JInt (- 1)) =
     Inr (JObj [(''count'', JInt 2), (''posts'', JArr [empty_post, empty_post])]))
   \<and> \<not> (2 :: int) \<le> - 1"
  by (simp add: feed_of_response_def slice_upto_def feed_post_def empty_post_def)

text \<open>
  C6, amended: for every requested limit that is a non-negative integer \<open>n\<close>, whatever the
  feed normalizer returns has a count that is the number of its posts and does not exceed
  \<open>n\<close>. On a feed document whose first \<open>n\<close> elements are objects of the shape the loop
  reads it does return, and it processes exactly the first \<open>min n N\<close> of the \<open>N\<close> upstream
  elements, in order: post \<open>i\<close> is what the loop body builds from element \<open>i\<close>. For every
  processed element that lacks the \<^verbatim>\<open>UpdateV2\<close> variant (no \<^verbatim>\<open>value\<close>, or a \<^verbatim>\<open>value\<close> object
  without that key), the post has the empty string as \<^verbatim>\<open>text\<close> (and as \<^verbatim>\<open>author\<close> and
  \<^verbatim>\<open>timestamp\<close>).
\<close>

theorem feed_limit_and_missing_update:
  assumes "0 \<le> n"
  shows "(\<forall>r. feed_of_response L d (JInt n) = Inr r \<longrightarrow>
            (\<exists>ps. r = JObj [(''count'', JInt (int (length ps))), (''posts'', JArr ps)]
                  \<and> int (length ps) \<le> n))
       \<and> (feed_shape (nat n) d \<longrightarrow>
            (\<exists>ps. feed_of_response L d (JInt n) =
                    Inr (JObj [(''count'', JInt (int (length ps))), (''posts'', JArr ps)])
                  \<and> length ps = min (nat n) (length (elements d))
                  \<and> list_all2 (\<lambda>e p. feed_post e = Inr p) (take (nat n) (elements d)) ps
                  \<and> (\<forall>i < length ps. lacks_update (elements d ! i) \<longrightarrow> ps ! i = empty_post)))"
proof (intro conjI allI impI)
  fix r assume "feed_of_response L d (JInt n) = Inr r"
  then show "\<exists>ps. r = JObj [(''count'', JInt (int (length ps))), (''posts'', JArr ps)]
                  \<and> int (length ps) \<le> n"
    using assms by (rule feed_of_response_returns)
next
  assume ok: "feed_shape (nat n) d"
  obtain ps where r: "feed_of_response L d (JInt n) =
        Inr (JObj [(''count'', JInt (int (length ps))), (''posts'', JArr ps)])"
    and len: "length ps = min (nat n) (length (elements d))"
    and rel: "list_all2 (\<lambda>e p. feed_post e = Inr p) (take (nat n) (elements d)) ps"
    using feed_of_response_shaped [OF ok assms] by blast
  have "ps ! i = empty_post" if i: "i < length ps" and l: "lacks_update (elements d ! i)" for i
  proof -
    have "feed_post (take (nat n) (elements d) ! i) = Inr (ps ! i)"
      using rel i by (rule list_all2_nthD2)
    moreover have "take (nat n) (elements d) ! i = elements d ! i"
      using i len by simp
    ultimately show ?thesis using feed_post_lacks [OF l] by simp
  qed
  with r len rel
  show "\<exists>ps. feed_of_response L d (JInt n) =
                    Inr (JObj [(''count'', JInt (int (length ps))), (''posts'', JArr ps)])
                  \<and> length ps = min (nat n) (length (elements d))
                  \<and> list_all2 (\<lambda>e p. feed_post e = Inr p) (take (nat n) (elements d)) ps
                  \<and> (\<forall>i < length ps. lacks_update (elements d ! i) \<longrightarrow> ps ! i = empty_post)"
    by blast
qed

text \<open>C6 (amended) at the sample document with the limit 2: of the three elements the
  first two are processed; the second has a \<^verbatim>\<open>value\<close> without the variant.\<close>

theorem feed_limit_and_missing_update_witness:
  "(0 :: int) \<le> 2 \<and> feed_shape (nat 2) sample_hits
   \<and> length (elements sample_hits) = 3
   \<and> lacks_update (elements sample_hits ! 1)
   \<and> (\<forall>L. \<exists>ps. feed_of_response L sample_hits (JInt 2) =
              Inr (JObj [(''count'', JInt (int (length ps))), (''posts'', JArr ps)])
            \<and> length ps = 2 \<and> int (length ps) \<le> 2 \<and> ps ! 1 = empty_post)
   \<and> (\<forall>L. feed_of_response L sample_hits (JInt 2) =
        Inr (JObj [(''count'', JInt 2),
                   (''posts'', JArr [JObj [(''text'', JStr ''hello''), (''author'', JStr []), (''timestamp'', JStr [])],
                                     empty_post])]))"
proof -
  have s: "feed_shape (nat 2) sample_hits"
    by (simp add: feed_shape_def sample_hits_def update_v2_def numeral_2_eq_2)
  have n: "(0 :: int) \<le> 2" by simp
  have l: "length (elements sample_hits) = 3"
    by (simp add: sample_hits_def elements_def dget_def)
  have u: "lacks_update (elements sample_hits ! 1)"
    by (simp add: sample_hits_def elements_def dget_def update_v2_def)
  have v: "feed_of_response L sample_hits (JInt 2) =
        Inr (JObj [(''count'', JInt 2),
                   (''posts'', JArr [JObj [(''text'', JStr ''hello''), (''author'', JStr []), (''timestamp'', JStr [])],
                                     empty_post])])" for L
    by (simp add: feed_of_response_def sample_hits_def slice_upto_def feed_post_def empty_post_def
        update_v2_def numeral_2_eq_2)
  have w: "\<exists>ps. feed_of_response L sample_hits (JInt 2) =
              Inr (JObj [(''count'', JInt (int (length ps))), (''posts'', JArr ps)])
            \<and> length ps = 2 \<and> int (length ps) \<le> 2 \<and> ps ! 1 = empty_post" for L
  proof -
    obtain ps where "feed_of_response L sample_hits (JInt 2) =
          Inr (JObj [(''count'', JInt (int (length ps))), (''posts'', JArr ps)])"
        "length ps = min (nat 2) (length (elements sample_hits))"
        "\<forall>i < length ps. lacks_update (elements sample_hits ! i) \<longrightarrow> ps ! i = empty_post"
      using feed_limit_and_missing_update [OF n, where d = sample_hits and L = L] s by blast
    then show ?thesis using l u by auto
  qed
  from s n l u v w show ?thesis by blast
qed

section \<open>Job search (C7)\<close>

lemma int_str_42: "int_str 42 = ''42''"
  by code_simp

text \<open>
  C7: for every job-search document of the shape the loop reads (an object whose
  \<^verbatim>\<open>elements\<close>, when present, is a list of objects, with \<^verbatim>\<open>hitInfo\<close> and \<^verbatim>\<open>*jobPosting\<close> objects
  where present) with \<open>N\<close> elements, the job-search normalizer returns the count \<open>N\<close> and the
  list of the \<open>N\<close> job records in upstream order: record \<open>i\<close> holds the \<^verbatim>\<open>title\<close>,
  \<^verbatim>\<open>companyName\<close>, \<^verbatim>\<open>formattedLocation\<close> and \<^verbatim>\<open>listedAt\<close> of the posting of element \<open>i\<close> (the
  empty string where one is absent) and the job-view URL of its \<^verbatim>\<open>jobPostingId\<close>. And on
  any document at all, whatever the normalizer returns is the count of the elements it
  iterated over and these records of them, in their order.
\<close>

theorem job_search_count_and_order:
  "(jobs_shape d \<longrightarrow>
      jobs_of_response L d =
        Inr (JObj [(''count'', JInt (int (length (elements d)))),
                   (''jobs'', JArr (map (\<lambda>e. JObj
                      [(''title'', dget (posting e) ''title'' (JStr [])),
                       (''company'', dget (posting e) ''companyName'' (JStr [])),
                       (''location'', dget (posting e) ''formattedLocation'' (JStr [])),
                       (''job_url'', JStr (''https://www.linkedin.com/jobs/view/'' @
                                           py_str L (dget (posting e) ''jobPostingId'' (JStr [])))),
                       (''posted'', dget (posting e) ''listedAt'' (JStr []))])
                     (elements d)))]))
   \<and> (\<forall>r. jobs_of_response L d = Inr r \<longrightarrow>
        (\<exists>es. py_iter (dget (obj_fields d) ''elements'' (JArr [])) = Inr es
            \<and> r = JObj [(''count'', JInt (int (length es))),
                        (''jobs'', JArr (map (\<lambda>e. JObj
                      [(''title'', dget (posting e) ''title'' (JStr [])),
                       (''company'', dget (posting e) ''companyName'' (JStr [])),
                       (''location'', dget (posting e) ''formattedLocation'' (JStr [])),
                       (''job_url'', JStr (''https://www.linkedin.com/jobs/view/'' @
                                           py_str L (dget (posting e) ''jobPostingId'' (JStr [])))),
                       (''posted'', dget (posting e) ''listedAt'' (JStr []))])
                     es))]))"
proof (intro conjI allI impI)
  assume s: "jobs_shape d"
  then obtain js where r: "jobs_of_response L d =
        Inr (JObj [(''count'', JInt (int (length (elements d)))), (''jobs'', JArr js)])"
    using jobs_of_response_shaped [of d L] by blast
  have it: "py_iter (dget (obj_fields d) ''elements'' (JArr [])) = Inr (elements d)"
    using s unfolding jobs_shape_def by (rule elements_ok_iter)
  show "jobs_of_response L d =
        Inr (JObj [(''count'', JInt (int (length (elements d)))),
                   (''jobs'', JArr (map (\<lambda>e. JObj
                      [(''title'', dget (posting e) ''title'' (JStr [])),
                       (''company'', dget (posting e) ''companyName'' (JStr [])),
                       (''location'', dget (posting e) ''formattedLocation'' (JStr [])),
                       (''job_url'', JStr (''https://www.linkedin.com/jobs/view/'' @
                                           py_str L (dget (posting e) ''jobPostingId'' (JStr [])))),
                       (''posted'', dget (posting e) ''listedAt'' (JStr []))])
                     (elements d)))])"
    using jobs_of_response_records [OF r] it r by auto
next
  fix r assume "jobs_of_response L d = Inr r"
  then show "\<exists>es. py_iter (dget (obj_fields d) ''elements'' (JArr [])) = Inr es
            \<and> r = JObj [(''count'', JInt (int (length es))),
                        (''jobs'', JArr (map (\<lambda>e. JObj
                      [(''title'', dget (posting e) ''title'' (JStr [])),
                       (''company'', dget (posting e) ''companyName'' (JStr [])),
                       (''location'', dget (posting e) ''formattedLocation'' (JStr [])),
                       (''job_url'', JStr (''https://www.linkedin.com/jobs/view/'' @
                                           py_str L (dget (posting e) ''jobPostingId'' (JStr [])))),
                       (''posted'', dget (posting e) ''listedAt'' (JStr []))])
                     es))]"
    by (rule jobs_of_response_records)
qed

text \<open>C7 at the sample document: three elements and three records in the same order, the
  compiler posting first, the proof posting second, the element without a posting last.\<close>

theorem job_search_count_and_order_witness:
  "jobs_shape sample_hits
   \<and> length (elements sample_hits) = 3
   \<and> (\<forall>L. jobs_of_response L sample_hits =
        Inr (JObj [(''count'', JInt 3),
                   (''jobs'', JArr
                      [JObj [(''title'', JStr ''Compiler engineer''), (''company'', JStr []),
                             (''location'', JStr []),
                             (''job_url'', JStr ''https://www.linkedin.com/jobs/view/42''),
                             (''posted'', JStr [])],
                       JObj [(''title'', JStr ''Proof engineer''), (''company'', JStr ''Kernel''),
                             (''location'', JStr []),
                             (''job_url'', JStr ''https://www.linkedin.com/jobs/view/''),
                             (''posted'', JStr [])],
                       JObj [(''title'', JStr []), (''company'', JStr []),
                             (''location'', JStr []),
                             (''job_url'', JStr ''https://www.linkedin.com/jobs/view/''),
                             (''posted'', JStr [])]])]))"
proof -
  have s: "jobs_shape sample_hits"
    by (simp add: jobs_shape_def sample_hits_def update_v2_def)
  have l: "length (elements sample_hits) = 3"
    by (simp add: sample_hits_def elements_def dget_def)
  have e: "elements sample_hits =
      [JObj [(''hitInfo'', JObj
                [(''*jobPosting'', JObj [(''title'', JStr ''Compiler engineer''), (''jobPostingId'', JInt 42)]),
                 (''*profile'', JObj [(''firstName'', JStr ''Ada''), (''publicIdentifier'', JStr ''ada'')])]),
              (''connectedMember'', JObj [(''firstName'', JStr ''Ada'')]),
              (''value'', JObj [(update_v2, JObj
                 [(''commentary'', JObj [(''text'', JObj [(''text'', JStr ''hello'')])])])])],
        JObj [(''hitInfo'', JObj
                [(''*jobPosting'', JObj [(''title'', JStr ''Proof engineer''), (''companyName'', JStr ''Kernel'')])]),
              (''value'', JObj [])],
        JObj []]"
    by (simp add: sample_hits_def elements_def dget_def)
  have "jobs_of_response L sample_hits =
        Inr (JObj [(''count'', JInt 3),
                   (''jobs'', JArr
                      [JObj [(''title'', JStr ''Compiler engineer''), (''company'', JStr []),
                             (''location'', JStr []),
                             (''job_url'', JStr ''https://www.linkedin.com/jobs/view/42''),
                             (''posted'', JStr [])],
                       JObj [(''title'', JStr ''Proof engineer''), (''company'', JStr ''Kernel''),
                             (''location'', JStr []),
                             (''job_url'', JStr ''https://www.linkedin.com/jobs/view/''),
                             (''posted'', JStr [])],
                       JObj [(''title'', JStr []), (''company'', JStr []),
                             (''location'', JStr []),
                             (''job_url'', JStr ''https://www.linkedin.com/jobs/view/''),
                             (''posted'', JStr [])]])])" for L
    using job_search_count_and_order [of sample_hits L] s
    unfolding e by (simp add: posting_def dget_def int_str_42)
  with s l show ?thesis by blast
qed

section \<open>The profile URL (C8)\<close>

text \<open>
  C8 says the \<^verbatim>\<open>profile_url\<close> of the record is the canonical URL built from the public
  identifier, whether the caller gave a full URL or a bare username. Lines 214 to 216 take
  the last path segment and then discard it again unless that segment itself contains
  \<^verbatim>\<open>linkedin.com\<close>: for the two URL forms the schema and the docstring name, the username
  is the whole argument, the request goes to a path that embeds the whole argument, and
  the \<^verbatim>\<open>profile_url\<close> of the record is the prefix followed by the whole argument. Only a
  bare username gives the canonical URL.
\<close>

theorem profile_url_of_full_url:
  "extract_username (JStr ''linkedin.com/in/johndoe'') = Inr ''linkedin.com/in/johndoe''
   \<and> extract_username (JStr ''https://www.linkedin.com/in/johndoe'') =
        Inr ''https://www.linkedin.com/in/johndoe''
   \<and> extract_username (JStr ''johndoe'') = Inr ''johndoe''
   \<and> get_profile_by_url L (\<lambda>c h r. Inr (JObj [])) sample_server (JStr ''linkedin.com/in/johndoe'') =
       (Inr (JObj
          [(''name'', JStr '' ''),
           (''headline'', JStr []),
           (''summary'', JStr []),
           (''location'', JStr []),
           (''industry'', JStr []),
           (''profile_url'', JStr ''https://www.linkedin.com/in/linkedin.com/in/johndoe''),
           (''experience'', JArr []),
           (''education'', JArr []),
           (''skills'', JArr [])]),
        snd (get_profile_by_url L (\<lambda>c h r. Inr (JObj [])) sample_server (JStr ''linkedin.com/in/johndoe'')))
   \<and> map url (calls (snd (get_profile_by_url L (\<lambda>c h r. Inr (JObj [])) sample_server
          (JStr ''linkedin.com/in/johndoe'')))) =
       [''https://www.linkedin.com/voyager/api/identity/profiles/linkedin.com/in/johndoe/profileView'']"
  by (simp add: get_profile_by_url_def get_http_client_def client_get_def sample_server_def
      py_last_def py_first_def profile_of_response_def slice_upto_def Let_def)

section \<open>Skills (C9)\<close>

text \<open>
  C9: for every profile document of the shape the normalizer reads, the \<^verbatim>\<open>skills\<close> of the
  record are the \<^verbatim>\<open>name\<close> fields (the empty string where an element has none) of the first
  ten elements under \<^verbatim>\<open>skillView.elements\<close>, in upstream order, all of them when there are
  fewer than ten. And on any document at all, whatever record the normalizer returns has
  a \<^verbatim>\<open>skills\<close> list of at most ten entries.
\<close>

theorem skills_first_ten:
  "(profile_shape d \<longrightarrow>
      (\<exists>r. profile_of_response L u d = Inr (JObj r)
           \<and> map_of r ''skills'' =
               Some (JArr (map (\<lambda>e. dget (obj_fields e) ''name'' (JStr []))
                             (take 10 (view_elements ''skillView'' d))))))
   \<and> (\<forall>r. profile_of_response L u d = Inr r \<longrightarrow>
        (\<exists>names. map_of (obj_fields r) ''skills'' = Some (JArr names) \<and> length names \<le> 10))"
proof (intro conjI allI impI)
  assume "profile_shape d"
  then obtain r where "profile_of_response L u d = Inr (JObj r)"
    and "map_of r ''skills'' =
               Some (JArr (map (\<lambda>e. dget (obj_fields e) ''name'' (JStr []))
                             (take 10 (view_elements ''skillView'' d))))"
    using profile_of_response_shaped [of d L u] by fastforce
  then show "\<exists>r. profile_of_response L u d = Inr (JObj r)
           \<and> map_of r ''skills'' =
               Some (JArr (map (\<lambda>e. dget (obj_fields e) ''name'' (JStr []))
                             (take 10 (view_elements ''skillView'' d))))"
    by blast
next
  fix r assume "profile_of_response L u d = Inr r"
  then show "\<exists>names. map_of (obj_fields r) ''skills'' = Some (JArr names) \<and> length names \<le> 10"
    by (rule profile_of_response_skills)
qed

text \<open>C9 at the sample profile: twelve skill elements, the fourth without a name.\<close>

theorem skills_first_ten_witness:
  "profile_shape sample_profile
   \<and> length (view_elements ''skillView'' sample_profile) = 12
   \<and> (\<forall>L. \<exists>r. profile_of_response L ''ada'' sample_profile = Inr (JObj r)
           \<and> map_of r ''skills'' =
               Some (JArr [JStr ''s01'', JStr ''s02'', JStr ''s03'', JStr [], JStr ''s05'',
                           JStr ''s06'', JStr ''s07'', JStr ''s08'', JStr ''s09'', JStr ''s10'']))"
proof -
  have p: "profile_shape sample_profile"
    by (simp add: profile_shape_def sample_profile_def view_ok_def position_shape_def)
  have l: "length (view_elements ''skillView'' sample_profile) = 12"
    by (simp add: sample_profile_def view_elements_def elements_def dget_def)
  have t: "map (\<lambda>e. dget (obj_fields e) ''name'' (JStr []))
             (take 10 (view_elements ''skillView'' sample_profile)) =
           [JStr ''s01'', JStr ''s02'', JStr ''s03'', JStr [], JStr ''s05'',
            JStr ''s06'', JStr ''s07'', JStr ''s08'', JStr ''s09'', JStr ''s10'']"
    by (simp add: sample_profile_def view_elements_def elements_def dget_def)
  have "\<exists>r. profile_of_response L ''ada'' sample_profile = Inr (JObj r)
           \<and> map_of r ''skills'' =
               Some (JArr [JStr ''s01'', JStr ''s02'', JStr ''s03'', JStr [], JStr ''s05'',
                           JStr ''s06'', JStr ''s07'', JStr ''s08'', JStr ''s09'', JStr ''s10''])" for L
    using skills_first_ten [of sample_profile L "''ada''"] p unfolding t by blast
  with p l show ?thesis by blast
qed

section \<open>The limit outside the feed (C10)\<close>

text \<open>What the three list methods and the feed method do when the upstream service
  answers the request they send with the document \<open>d\<close>: one request is added to those
  sent, with the limit as its \<^verbatim>\<open>count\<close> parameter, and \<open>d\<close> is normalized.\<close>

lemma search_profiles_run:
  assumes "\<And>c h r. net c h r = Inr d"
  shows "fst (search_profiles L net st query limit) = profiles_of_response L d"
    and "\<exists>req. calls (snd (search_profiles L net st query limit)) = calls st @ [req]
              \<and> map_of (params req) ''count'' = Some limit"
  using assms
  by (auto simp: search_profiles_def get_http_client_def client_get_def Let_def
      split: option.splits)

lemma search_jobs_run:
  assumes "\<And>c h r. net c h r = Inr d"
  shows "fst (search_jobs L net st kw location limit) = jobs_of_response L d"
    and "\<exists>req. calls (snd (search_jobs L net st kw location limit)) = calls st @ [req]
              \<and> map_of (params req) ''count'' = Some limit"
  using assms
  by (auto simp: search_jobs_def get_http_client_def client_get_def Let_def
      split: option.splits)

lemma get_my_connections_run:
  assumes "\<And>c h r. net c h r = Inr d"
  shows "fst (get_my_connections L net st limit) = connections_of_response L d"
    and "\<exists>req. calls (snd (get_my_connections L net st limit)) = calls st @ [req]
              \<and> map_of (params req) ''count'' = Some limit"
  using assms
  by (auto simp: get_my_connections_def get_http_client_def client_get_def Let_def
      split: option.splits)

lemma get_feed_run:
  assumes "\<And>c h r. net c h r = Inr d"
  shows "fst (get_feed L net st limit) = feed_of_response L d limit"
    and "\<exists>req. calls (snd (get_feed L net st limit)) = calls st @ [req]
              \<and> map_of (params req) ''count'' = Some limit"
  using assms
  by (auto simp: get_feed_def get_http_client_def client_get_def Let_def
      split: option.splits)

text \<open>
  C10: when the upstream service answers with a document \<open>d\<close>, whatever \<^verbatim>\<open>search_profiles\<close>,
  \<^verbatim>\<open>search_jobs\<close> and \<^verbatim>\<open>get_my_connections\<close> return is the count of all the elements they
  iterated over with one record for each, whatever the requested limit is: the limit only
  goes into the \<^verbatim>\<open>count\<close> parameter of the one request sent. On a document of \<open>N\<close>
  elements of the shape the method reads they do return, the count \<open>N\<close> and \<open>N\<close> records,
  also when \<open>N\<close> exceeds the limit. \<^verbatim>\<open>get_feed\<close> alone cuts the list: with a limit \<open>n \<ge> 0\<close> it
  returns \<open>min n N\<close> posts.
\<close>

theorem limit_only_forwarded:
  assumes "\<And>c h r. net c h r = Inr d"
  shows "(\<forall>r. fst (search_profiles L net st query limit) = Inr r \<longrightarrow>
            (\<exists>es rs. py_iter (dget (obj_fields d) ''elements'' (JArr [])) = Inr es
                  \<and> r = JObj [(''count'', JInt (int (length es))), (''results'', JArr rs)]
                  \<and> length rs = length es))
       \<and> (people_shape d \<longrightarrow>
            (\<exists>rs. fst (search_profiles L net st query limit) =
                    Inr (JObj [(''count'', JInt (int (length (elements d)))), (''results'', JArr rs)])
                  \<and> length rs = length (elements d)))
       \<and> (\<exists>req. calls (snd (search_profiles L net st query limit)) = calls st @ [req]
                \<and> map_of (params req) ''count'' = Some limit)
       \<and> (\<forall>r. fst (search_jobs L net st kw location limit) = Inr r \<longrightarrow>
            (\<exists>es js. py_iter (dget (obj_fields d) ''elements'' (JArr [])) = Inr es
                  \<and> r = JObj [(''count'', JInt (int (length es))), (''jobs'', JArr js)]
                  \<and> length js = length es))
       \<and> (jobs_shape d \<longrightarrow>
            (\<exists>js. fst (search_jobs L net st kw location limit) =
                    Inr (JObj [(''count'', JInt (int (length (elements d)))), (''jobs'', JArr js)])
                  \<and> length js = length (elements d)))
       \<and> (\<exists>req. calls (snd (search_jobs L net st kw location limit)) = calls st @ [req]
                \<and> map_of (params req) ''count'' = Some limit)
       \<and> (\<forall>r. fst (get_my_connections L net st limit) = Inr r \<longrightarrow>
            (\<exists>es cs. py_iter (dget (obj_fields d) ''elements'' (JArr [])) = Inr es
                  \<and> r = JObj [(''count'', JInt (int (length es))), (''connections'', JArr cs)]
                  \<and> length cs = length es))
       \<and> (connections_shape d \<longrightarrow>
            (\<exists>cs. fst (get_my_connections L net st limit) =
                    Inr (JObj [(''count'', JInt (int (length (elements d)))), (''connections'', JArr cs)])
                  \<and> length cs = length (elements d)))
       \<and> (\<exists>req. calls (snd (get_my_connections L net st limit)) = calls st @ [req]
                \<and> map_of (params req) ''count'' = Some limit)
       \<and> (feed_shape (nat n) d \<longrightarrow> 0 \<le> n \<longrightarrow>
            (\<exists>ps. fst (get_feed L net st (JInt n)) =
                    Inr (JObj [(''count'', JInt (int (min (nat n) (length (elements d))))), (''posts'', JArr ps)])
                  \<and> length ps = min (nat n) (length (elements d))))"
proof -
  have p: "fst (search_profiles L net st query limit) = profiles_of_response L d"
    using assms by (rule search_profiles_run(1))
  have j: "fst (search_jobs L net st kw location limit) = jobs_of_response L d"
    using assms by (rule search_jobs_run(1))
  have c: "fst (get_my_connections L net st limit) = connections_of_response L d"
    using assms by (rule get_my_connections_run(1))
  have f: "fst (get_feed L net st (JInt n)) = feed_of_response L d (JInt n)"
    using assms by (rule get_feed_run(1))
  have p1: "\<forall>r. fst (search_profiles L net st query limit) = Inr r \<longrightarrow>
            (\<exists>es rs. py_iter (dget (obj_fields d) ''elements'' (JArr [])) = Inr es
                  \<and> r = JObj [(''count'', JInt (int (length es))), (''results'', JArr rs)]
                  \<and> length rs = length es)"
    unfolding p using profiles_of_response_returns [of L d] by blast
  have p2: "people_shape d \<longrightarrow>
            (\<exists>rs. fst (search_profiles L net st query limit) =
                    Inr (JObj [(''count'', JInt (int (length (elements d)))), (''results'', JArr rs)])
                  \<and> length rs = length (elements d))"
    unfolding p using profiles_of_response_shaped [of d L] by blast
  have j1: "\<forall>r. fst (search_jobs L net st kw location limit) = Inr r \<longrightarrow>
            (\<exists>es js. py_iter (dget (obj_fields d) ''elements'' (JArr [])) = Inr es
                  \<and> r = JObj [(''count'', JInt (int (length es))), (''jobs'', JArr js)]
                  \<and> length js = length es)"
    unfolding j using jobs_of_response_returns [of L d] by blast
  have j2: "jobs_shape d \<longrightarrow>
            (\<exists>js. fst (search_jobs L net st kw location limit) =
                    Inr (JObj [(''count'', JInt (int (length (elements d)))), (''jobs'', JArr js)])
                  \<and> length js = length (elements d))"
    unfolding j using jobs_of_response_shaped [of d L] by blast
  have c1: "\<forall>r. fst (get_my_connections L net st limit) = Inr r \<longrightarrow>
            (\<exists>es cs. py_iter (dget (obj_fields d) ''elements'' (JArr [])) = Inr es
                  \<and> r = JObj [(''count'', JInt (int (length es))), (''connections'', JArr cs)]
                  \<and> length cs = length es)"
    unfolding c using connections_of_response_returns [of L d] by blast
  have c2: "connections_shape d \<longrightarrow>
            (\<exists>cs. fst (get_my_connections L net st limit) =
                    Inr (JObj [(''count'', JInt (int (length (elements d)))), (''connections'', JArr cs)])
                  \<and> length cs = length (elements d))"
    unfolding c using connections_of_response_shaped [of d L] by blast
  have f2: "feed_shape (nat n) d \<longrightarrow> 0 \<le> n \<longrightarrow>
            (\<exists>ps. fst (get_feed L net st (JInt n)) =
                    Inr (JObj [(''count'', JInt (int (min (nat n) (length (elements d))))), (''posts'', JArr ps)])
                  \<and> length ps = min (nat n) (length (elements d)))"
    unfolding f using feed_of_response_shaped [of n d L] by auto
  show ?thesis
    using p1 p2 j1 j2 c1 c2 f2
      search_profiles_run(2) [OF assms, where L = L and st = st and query = query and limit = limit]
      search_jobs_run(2) [OF assms, where L = L and st = st and kw = kw and location = location and limit = limit]
      get_my_connections_run(2) [OF assms, where L = L and st = st and limit = limit]
    by (intro conjI)
qed

text \<open>C10 at the sample document with the limit 1: three elements, three records from
  each of the three list methods, one post from the feed.\<close>

theorem limit_only_forwarded_witness:
  "people_shape sample_hits \<and> jobs_shape sample_hits \<and> connections_shape sample_hits
   \<and> feed_shape (nat 1) sample_hits \<and> (0 :: int) \<le> 1
   \<and> length (elements sample_hits) = 3
   \<and> (\<forall>L. \<exists>rs. fst (search_profiles L (\<lambda>c h r. Inr sample_hits) sample_server (JStr ''ada'') (JInt 1)) =
                Inr (JObj [(''count'', JInt 3), (''results'', JArr rs)]) \<and> length rs = 3)
   \<and> (\<forall>L. \<exists>js. fst (search_jobs L (\<lambda>c h r. Inr sample_hits) sample_server (JStr ''compiler'') (JStr []) (JInt 1)) =
                Inr (JObj [(''count'', JInt 3), (''jobs'', JArr js)]) \<and> length js = 3)
   \<and> (\<forall>L. \<exists>cs. fst (get_my_connections L (\<lambda>c h r. Inr sample_hits) sample_server (JInt 1)) =
                Inr (JObj [(''count'', JInt 3), (''connections'', JArr cs)]) \<and> length cs = 3)
   \<and> (\<forall>L. \<exists>ps. fst (get_feed L (\<lambda>c h r. Inr sample_hits) sample_server (JInt 1)) =
                Inr (JObj [(''count'', JInt 1), (''posts'', JArr ps)]) \<and> length ps = 1)"
proof -
  have net: "\<And>c h r. (\<lambda>c h r. Inr sample_hits :: string + json) (c :: client) (h :: request list) (r :: request) = Inr sample_hits"
    by simp
  have s: "people_shape sample_hits"
    by (simp add: people_shape_def sample_hits_def update_v2_def)
  have j: "jobs_shape sample_hits"
    by (simp add: jobs_shape_def sample_hits_def update_v2_def)
  have c: "connections_shape sample_hits"
    by (simp add: connections_shape_def sample_hits_def update_v2_def)
  have f: "feed_shape (nat 1) sample_hits"
    by (simp add: feed_shape_def sample_hits_def update_v2_def)
  have n: "(0 :: int) \<le> 1" by simp
  have l: "length (elements sample_hits) = 3"
    by (simp add: sample_hits_def elements_def dget_def)
  note t = limit_only_forwarded [OF net, where st = sample_server and limit = "JInt 1" and n = 1]
  have 1: "\<exists>rs. fst (search_profiles L (\<lambda>c h r. Inr sample_hits) sample_server (JStr ''ada'') (JInt 1)) =
                Inr (JObj [(''count'', JInt 3), (''results'', JArr rs)]) \<and> length rs = 3" for L
    using t [where L = L and query = "JStr ''ada''"] s l by auto
  have 2: "\<exists>js. fst (search_jobs L (\<lambda>c h r. Inr sample_hits) sample_server (JStr ''compiler'') (JStr []) (JInt 1)) =
                Inr (JObj [(''count'', JInt 3), (''jobs'', JArr js)]) \<and> length js = 3" for L
    using t [where L = L and kw = "JStr ''compiler''" and location = "JStr []"] j l by auto
  have 3: "\<exists>cs. fst (get_my_connections L (\<lambda>c h r. Inr sample_hits) sample_server (JInt 1)) =
                Inr (JObj [(''count'', JInt 3), (''connections'', JArr cs)]) \<and> length cs = 3" for L
    using t [where L = L] c l by auto
  have 4: "\<exists>ps. fst (get_feed L (\<lambda>c h r. Inr sample_hits) sample_server (JInt 1)) =
                Inr (JObj [(''count'', JInt 1), (''posts'', JArr ps)]) \<and> length ps = 1" for L
    using t [where L = L] f n l by auto
  from s j c f n l 1 2 3 4 show ?thesis by blast
qed

end
